theory Spec2Isabelle
  imports Main "HOL-Library.Sublist" "HOL-Library.Char_ord" "HOL-Library.List_Lexorder"
    "HOL-Library.Multiset" "HOL-Library.Word"
begin

section \<open>Strings and paths\<close>

text \<open>
  Python strings are modelled as \<^typ>\<open>string\<close>, the UTF-8 bytes of the text. The
  operations the extractor applies to names (equality, \<open>startswith\<close>, \<open>endswith\<close>,
  \<open>rfind('.')\<close>, slicing at an ASCII character, comparison) give the same result on
  the bytes as on the code points.
\<close>

definition backslash :: char where
  "backslash = CHR 0x5C"

text \<open>The source writes \<open>"\\n"\<close>: a backslash followed by the letter n.\<close>

definition nl :: string where
  "nl = [backslash, CHR ''n'']"

text \<open>\<open>s.replace("\\\\", "/")\<close>: every pair of backslashes, left to right and without
  overlap, becomes one slash.\<close>

fun replace_backslashes :: "string \<Rightarrow> string" where
  "replace_backslashes (a # b # cs) =
     (if a = backslash \<and> b = backslash then CHR ''/'' # replace_backslashes cs
      else a # replace_backslashes (b # cs))"
| "replace_backslashes cs = cs"

text \<open>\<open>sep.join(xs)\<close>.\<close>

fun join :: "string \<Rightarrow> string list \<Rightarrow> string" where
  "join sep [] = []"
| "join sep [x] = x"
| "join sep (x # y # ys) = x @ sep @ join sep (y # ys)"

text \<open>A path is kept relative to the module root, as the list of its parts;
  \<open>str(rel_path)\<close> joins them with the separator.\<close>

type_synonym path = "string list"

definition path_str :: "path \<Rightarrow> string" where
  "path_str p = join ''/'' p"

text \<open>pathlib's \<open>suffix\<close> of a name: from the last dot on, when that dot is neither the
  first nor the last character.\<close>

definition name_suffix :: "string \<Rightarrow> string" where
  "name_suffix name =
     (if CHR ''.'' \<in> set name then
        (let ext = rev (takeWhile (\<lambda>c. c \<noteq> CHR ''.'') (rev name));
             i = length name - length ext - 1
         in if 0 < i \<and> i < length name - 1 then drop i name else [])
      else [])"

definition path_suffix :: "path \<Rightarrow> string" where
  "path_suffix p = (if p = [] then [] else name_suffix (last p))"

section \<open>Configuration tables\<close>

definition INCLUDE_EXTENSIONS :: "string set" where
  "INCLUDE_EXTENSIONS =
     {''.py'', ''.xml'', ''.csv'', ''.yml'', ''.yaml'', ''.js'', ''.scss'', ''.css'',
      ''.html'', ''.txt''}"

definition EXCLUDE_PATTERNS :: "string set" where
  "EXCLUDE_PATTERNS =
     {''__pycache__'', ''.git'', ''.idea'', ''.vscode'', ''*.pyc'', ''*.pyo'', ''.DS_Store'',
      ''node_modules'', ''venv'', ''.venv''}"

text \<open>A dict literal keeps its keys in declaration order: an association list.\<close>

definition PRIORITY_FILES :: "(string \<times> int) list" where
  "PRIORITY_FILES =
     [(''__manifest__.py'', 1),
      (''__init__.py'', 2),
      (''models/*.py'', 3),
      (''views/*.xml'', 4),
      (''security/*.csv'', 5),
      (''data/*.xml'', 6),
      (''wizard/*.py'', 7),
      (''controllers/*.py'', 8),
      (''static/src/*.js'', 9),
      (''reports/*.xml'', 10)]"

section \<open>Priority resolver\<close>

text \<open>
  \<open>fnmatch.fnmatch(name, pat)\<close> on a POSIX system, for patterns made of literal
  characters and \<open>*\<close>: the star stands for any run of characters, the path separator
  included. The wildcards \<open>?\<close> and \<open>[...]\<close> of fnmatch are not modelled; no key of
  \<open>PRIORITY_FILES\<close> holds one.
\<close>

fun fnmatch :: "string \<Rightarrow> string \<Rightarrow> bool" where
  "fnmatch [] [] = True"
| "fnmatch (c # cs) [] = False"
| "fnmatch [] (p # ps) = (if p = CHR ''*'' then fnmatch [] ps else False)"
| "fnmatch (c # cs) (p # ps) =
     (if p = CHR ''*'' then fnmatch (c # cs) ps \<or> fnmatch cs (p # ps)
      else p = c \<and> fnmatch cs ps)"

text \<open>The first loop of \<open>_get_file_priority\<close>: exact match, in declaration order.\<close>

fun exact_pass :: "(string \<times> int) list \<Rightarrow> string \<Rightarrow> int option" where
  "exact_pass [] rel_str = None"
| "exact_pass ((pattern, priority) # rest) rel_str =
     (if pattern = rel_str then Some priority else exact_pass rest rel_str)"

text \<open>The second loop: the keys holding a star, matched as globs.\<close>

fun glob_pass :: "(string \<times> int) list \<Rightarrow> string \<Rightarrow> int option" where
  "glob_pass [] rel_str = None"
| "glob_pass ((pattern, priority) # rest) rel_str =
     (if CHR ''*'' \<in> set pattern \<and> fnmatch rel_str pattern then Some priority
      else glob_pass rest rel_str)"

definition get_file_priority :: "path \<Rightarrow> int" where
  "get_file_priority rel_path =
     (let rel_str = replace_backslashes (path_str rel_path) in
      case exact_pass PRIORITY_FILES rel_str of
        Some priority \<Rightarrow> priority
      | None \<Rightarrow>
          (case glob_pass PRIORITY_FILES rel_str of
             Some priority \<Rightarrow> priority
           | None \<Rightarrow> 999))"

section \<open>Path filter\<close>

text \<open>
  The loop of \<open>_should_exclude\<close> over the set \<open>EXCLUDE_PATTERNS\<close> returns at the first
  pattern that fits: whatever the order of iteration, it answers whether some pattern
  fits.
\<close>

definition pattern_fits :: "string \<Rightarrow> string \<Rightarrow> bool" where
  "pattern_fits name pattern =
     (if prefix ''*'' pattern then suffix (drop 1 pattern) name else name = pattern)"

definition name_excluded :: "string \<Rightarrow> bool" where
  "name_excluded name = (\<exists>pattern \<in> EXCLUDE_PATTERNS. pattern_fits name pattern)"

section \<open>File system\<close>

text \<open>
  The module root as the walker sees it. A file has a name, the size \<open>stat\<close> reports
  and what reading its bytes gives: the bytes, or the message of the exception raised.
  A directory has a name and what \<open>iterdir\<close> gives: its entries in the order of the
  operating system, or nothing when it raises \<open>PermissionError\<close>. The tree does not
  change during a run; entries that are neither files nor directories are not modelled.
\<close>

type_synonym byte = "8 word"

type_synonym read_result = "string + byte list"

datatype fsnode =
    FileNode string nat read_result
  | DirNode string "fsnode list option"

fun node_name :: "fsnode \<Rightarrow> string" where
  "node_name (FileNode name sz data) = name"
| "node_name (DirNode name listing) = name"

fun is_file :: "fsnode \<Rightarrow> bool" where
  "is_file (FileNode name sz data) = True"
| "is_file (DirNode name listing) = False"

definition should_exclude :: "fsnode \<Rightarrow> bool" where
  "should_exclude node =
     (if name_excluded (node_name node) then True
      else if is_file node \<and> name_suffix (node_name node) \<notin> INCLUDE_EXTENSIONS then True
      else False)"

section \<open>Tree walker\<close>

text \<open>
  The dictionaries \<open>_walk_directory\<close> builds: a directory has a type, a name and a path,
  a file has a size too. The file's read result stands for the file at that path, which
  the renderer opens later.
\<close>

record file_item =
  f_name :: string
  f_path :: path
  f_size :: nat
  f_data :: read_result

datatype item = DirItem string path | FileItem file_item

fun item_path :: "item \<Rightarrow> path" where
  "item_path (DirItem name p) = p"
| "item_path (FileItem f) = f_path f"

fun item_name :: "item \<Rightarrow> string" where
  "item_name (DirItem name p) = name"
| "item_name (FileItem f) = f_name f"

text \<open>\<open>sorted(path.iterdir())\<close> orders the entries of one directory by name.\<close>

function walk_directory :: "path \<Rightarrow> fsnode list option \<Rightarrow> item list" where
  "walk_directory p None = []"
| "walk_directory p (Some entries) =
     concat (map (\<lambda>node.
        if should_exclude node then []
        else (case node of
                DirNode name listing \<Rightarrow>
                  DirItem name (p @ [name]) # walk_directory (p @ [name]) listing
              | FileNode name sz data \<Rightarrow>
                  [FileItem \<lparr>f_name = name, f_path = p @ [name], f_size = sz, f_data = data\<rparr>]))
       (sort_key node_name entries))"
  by pat_completeness auto
termination
proof (relation "measure (\<lambda>(p, l). size_option (size_list size) l)")
  show "wf (measure (\<lambda>(p, l). size_option (size_list size) l))"
    by simp
next
  fix p :: path and entries node name listing
  assume "node \<in> set (sort_key node_name entries)" and "node = DirNode name listing"
  then have "DirNode name listing \<in> set entries"
    by simp
  then have "size (DirNode name listing) \<le> size_list size entries"
    by (simp add: size_list_estimation')
  then show "((p @ [name], listing), (p, Some entries))
      \<in> measure (\<lambda>(p, l). size_option (size_list size) l)"
    by simp
qed

section \<open>Library functions the extractor calls\<close>

text \<open>
  The syntax tree \<open>ast.parse\<close> returns, as far as the extractor looks at it: the nodes
  of type \<open>ClassDef\<close> (a \<open>class\<close> statement), \<open>FunctionDef\<close> (a \<open>def\<close> statement, a method
  included) and \<open>AsyncFunctionDef\<close> (an \<open>async def\<close> statement, which is a node type of
  its own and no subclass of \<open>FunctionDef\<close>) with their names, the nodes of every other
  type (the module itself, other statements, expressions), and each node's children in
  the order \<open>ast.iter_child_nodes\<close> gives them.
\<close>

datatype pynode =
    ClassDef string "pynode list"
  | FunctionDef string "pynode list"
  | AsyncFunctionDef string "pynode list"
  | OtherNode "pynode list"

fun child_nodes :: "pynode \<Rightarrow> pynode list" where
  "child_nodes (ClassDef name cs) = cs"
| "child_nodes (FunctionDef name cs) = cs"
| "child_nodes (AsyncFunctionDef name cs) = cs"
| "child_nodes (OtherNode cs) = cs"

text \<open>\<open>ast.walk\<close>: breadth first, from a queue of nodes still to visit.\<close>

function ast_walk :: "pynode list \<Rightarrow> pynode list" where
  "ast_walk [] = []"
| "ast_walk (node # todo) = node # ast_walk (todo @ child_nodes node)"
  by pat_completeness auto
termination
  by (relation "measure (size_list size)") (auto, case_tac node, auto)

text \<open>An element of \<open>xml.etree.ElementTree\<close>: tag, attributes, children.\<close>

datatype element = Element string "(string \<times> string) list" "element list"

fun tag :: "element \<Rightarrow> string" where
  "tag (Element t attrib cs) = t"

fun attrib :: "element \<Rightarrow> (string \<times> string) list" where
  "attrib (Element t a cs) = a"

fun subelements :: "element \<Rightarrow> element list" where
  "subelements (Element t a cs) = cs"

text \<open>\<open>Element.iter()\<close>: the element, then its descendants, in document order.\<close>

fun iter :: "element \<Rightarrow> element list" where
  "iter (Element t a cs) = Element t a cs # concat (map iter cs)"

text \<open>\<open>root.findall(".//name")\<close>: the descendants of the root with that tag, the root
  itself left out.\<close>

definition findall_descendants :: "element \<Rightarrow> string \<Rightarrow> element list" where
  "findall_descendants root name =
     filter (\<lambda>e. tag e = name) (concat (map iter (subelements root)))"

text \<open>\<open>r.get(key, default)\<close> on an element.\<close>

definition element_get :: "element \<Rightarrow> string \<Rightarrow> string \<Rightarrow> string" where
  "element_get e key dflt =
     (case map_of (attrib e) key of Some v \<Rightarrow> v | None \<Rightarrow> dflt)"

text \<open>The values \<open>ast.literal_eval\<close> can return.\<close>

datatype pyval =
    PyNone
  | PyBool bool
  | PyInt int
  | PyFloat string
  | PyComplex string
  | PyStr string
  | PyBytes "byte list"
  | PyEllipsis
  | PyList "pyval list"
  | PyTuple "pyval list"
  | PySet "pyval list"
  | PyDict "(pyval \<times> pyval) list"

text \<open>The exceptions that end a run.\<close>

datatype py_error =
  PermissionError | AttributeError | TypeError | ValueError | UnicodeEncodeError

text \<open>The dict \<open>_generate_summary\<close> builds and hands to \<open>json.dump\<close>; its field
  \<open>total_size_mb\<close>, a rounded floating point number, is left out.\<close>

record summary =
  s_module_name :: string
  s_extraction_date :: string
  s_module_info :: pyval
  s_total_files :: nat
  s_total_size_bytes :: nat
  s_file_types :: "string \<rightharpoonup> nat"
  s_dependencies :: pyval
  s_version :: pyval
  s_author :: pyval
  s_category :: pyval

text \<open>
  The functions of the Python library whose results the extractor only passes on:
  \<^item> \<open>md5\<close>: the digest of \<open>hashlib.md5\<close>, 128 bits, its first byte the most significant;
  \<^item> \<open>utf8_decode\<close>: what reading a file's bytes as UTF-8 text gives, the text or the
    message of the exception;
  \<^item> \<open>ast_parse\<close>, \<open>et_fromstring\<close>, \<open>literal_eval\<close>: the parsers, \<open>None\<close> when they raise;
  \<^item> \<open>json_dump\<close>: the exception \<open>json.dump\<close> raises on the summary, if it raises one
    (\<open>TypeError\<close> on bytes, sets, complex numbers, the ellipsis and on a dict key that is
    no string, number, boolean or \<open>None\<close>; \<open>ValueError\<close> on an integer beyond the limit of
    digits; \<open>UnicodeEncodeError\<close> on a string that holds a lone surrogate);
  \<^item> \<open>format_kb\<close>: the size in bytes, divided by 1024 and printed with one decimal.
\<close>

record env =
  md5 :: "byte list \<Rightarrow> 128 word"
  utf8_decode :: "byte list \<Rightarrow> string + string"
  ast_parse :: "string \<Rightarrow> pynode option"
  et_fromstring :: "string \<Rightarrow> element option"
  literal_eval :: "string \<Rightarrow> pyval option"
  json_dump :: "summary \<Rightarrow> py_error option"
  format_kb :: "nat \<Rightarrow> string"

text \<open>\<open>open(path, "r", encoding="utf-8").read()\<close>.\<close>

definition read_text :: "env \<Rightarrow> read_result \<Rightarrow> string + string" where
  "read_text E data = (case data of Inl e \<Rightarrow> Inl e | Inr bs \<Rightarrow> utf8_decode E bs)"

text \<open>\<open>str(n)\<close> of a natural number.\<close>

fun str_nat :: "nat \<Rightarrow> string" where
  "str_nat n =
     (if n < 10 then [''0123456789'' ! n]
      else str_nat (n div 10) @ [''0123456789'' ! (n mod 10)])"

declare str_nat.simps [simp del]

text \<open>The lower-case hexadecimal digit of a number below 16.\<close>

definition hex_digit :: "nat \<Rightarrow> char" where
  "hex_digit d = ''0123456789abcdef'' ! d"

text \<open>\<open>hexdigest()\<close>: the 32 hexadecimal digits of the digest.\<close>

definition hexdigest :: "128 word \<Rightarrow> string" where
  "hexdigest w = map (\<lambda>i. hex_digit (unat (drop_bit (4 * i) w) mod 16)) (rev [0..<32])"

section \<open>Content renderer\<close>

text \<open>The text of the message \<open>"ERROR: ... - "\<close>, in UTF-8.\<close>

definition error_prefix :: string where
  "error_prefix =
     ''ERROR: '' @
     [CHR 0xE6, CHR 0x97, CHR 0xA0, CHR 0xE6, CHR 0xB3, CHR 0x95, CHR 0xE8, CHR 0xAF, CHR 0xBB,
      CHR 0xE5, CHR 0x8F, CHR 0x96, CHR 0xE6, CHR 0x96, CHR 0x87, CHR 0xE4, CHR 0xBB, CHR 0xB6] @
     '' - ''"

fun is_ClassDef :: "pynode \<Rightarrow> bool" where
  "is_ClassDef (ClassDef name cs) = True"
| "is_ClassDef node = False"

fun is_FunctionDef :: "pynode \<Rightarrow> bool" where
  "is_FunctionDef (FunctionDef name cs) = True"
| "is_FunctionDef node = False"

fun py_name :: "pynode \<Rightarrow> string" where
  "py_name (ClassDef name cs) = name"
| "py_name (FunctionDef name cs) = name"
| "py_name (AsyncFunctionDef name cs) = name"
| "py_name (OtherNode cs) = []"

definition class_names :: "pynode \<Rightarrow> string list" where
  "class_names tree = map py_name (filter is_ClassDef (ast_walk [tree]))"

definition function_names :: "pynode \<Rightarrow> string list" where
  "function_names tree = map py_name (filter is_FunctionDef (ast_walk [tree]))"

text \<open>What the inner \<open>try\<close> of \<open>_write_python_file\<close> writes once \<open>ast.parse\<close> has
  returned a tree.\<close>

definition python_info :: "pynode \<Rightarrow> string" where
  "python_info tree =
     (let classes = class_names tree; functions = function_names tree in
      if classes \<noteq> [] \<or> functions \<noteq> [] then
        ''PARSED_INFO:'' @ nl @
        (if classes \<noteq> [] then ''  Classes: '' @ join '', '' classes @ nl else []) @
        (if functions \<noteq> [] then
           ''  Functions: '' @ join '', '' (take 10 functions) @
           (if length functions > 10 then ''...'' else []) @ nl
         else [])
      else [])"

text \<open>The inner \<open>try\<close>: an exception of the parser is passed over.\<close>

definition python_parsed_info :: "env \<Rightarrow> string \<Rightarrow> string" where
  "python_parsed_info E content =
     (case ast_parse E content of None \<Rightarrow> [] | Some tree \<Rightarrow> python_info tree)"

definition write_python_file :: "env \<Rightarrow> read_result \<Rightarrow> string" where
  "write_python_file E data =
     (case read_text E data of
        Inl e \<Rightarrow> error_prefix @ e @ nl
      | Inr content \<Rightarrow> python_parsed_info E content @ ''CONTENT:'' @ nl @ content)"

text \<open>What the inner \<open>try\<close> of \<open>_write_xml_file\<close> writes once \<open>ET.fromstring\<close> has
  returned the root.\<close>

definition xml_info :: "element \<Rightarrow> string" where
  "xml_info root =
     (if tag root = ''odoo'' \<or> tag root = ''openerp'' then
        (let records = findall_descendants root ''record'';
             templates = findall_descendants root ''template''
         in ''PARSED_INFO:'' @ nl @
            (if records \<noteq> [] then
               ''  Records: '' @ str_nat (length records) @ nl @
               ''  Record IDs: '' @
               join '', '' (map (\<lambda>r. element_get r ''id'' ''no-id'') (take 5 records)) @
               (if length records > 5 then ''...'' else []) @ nl
             else []) @
            (if templates \<noteq> [] then ''  Templates: '' @ str_nat (length templates) @ nl
             else []))
      else [])"

definition xml_parsed_info :: "env \<Rightarrow> string \<Rightarrow> string" where
  "xml_parsed_info E content =
     (case et_fromstring E content of None \<Rightarrow> [] | Some root \<Rightarrow> xml_info root)"

definition write_xml_file :: "env \<Rightarrow> read_result \<Rightarrow> string" where
  "write_xml_file E data =
     (case read_text E data of
        Inl e \<Rightarrow> error_prefix @ e @ nl
      | Inr content \<Rightarrow> xml_parsed_info E content @ ''CONTENT:'' @ nl @ content)"

definition write_generic_file :: "env \<Rightarrow> read_result \<Rightarrow> string" where
  "write_generic_file E data =
     (case read_text E data of
        Inl e \<Rightarrow> ''CONTENT: [Binary file - skipped]'' @ nl
      | Inr content \<Rightarrow> ''CONTENT:'' @ nl @ content)"

definition calculate_checksum :: "env \<Rightarrow> read_result \<Rightarrow> string" where
  "calculate_checksum E data =
     (case data of
        Inl e \<Rightarrow> ''error''
      | Inr bs \<Rightarrow> take 8 (hexdigest (md5 E bs)))"

section \<open>Report assembler\<close>

record file_record =
  r_path :: string
  r_size :: nat
  r_type :: string
  r_checksum :: string

text \<open>The fields of the extractor that a run changes; \<open>init\<close> is what \<open>__init__\<close> sets.\<close>

record extractor =
  module_info :: pyval
  file_index :: "file_record list"
  total_size :: nat

definition init :: extractor where
  "init = \<lparr>module_info = PyDict [], file_index = [], total_size = 0\<rparr>"

definition separator :: string where
  "separator = nl @ replicate 80 CHR ''='' @ nl"

text \<open>The dispatch of \<open>_write_file_content\<close> on the extension.\<close>

definition file_body :: "env \<Rightarrow> file_item \<Rightarrow> string" where
  "file_body E file =
     (if path_suffix (f_path file) = ''.py'' then write_python_file E (f_data file)
      else if path_suffix (f_path file) = ''.xml'' then write_xml_file E (f_data file)
      else write_generic_file E (f_data file))"

text \<open>The text \<open>_write_file_content\<close> writes for one file: header, body, closing
  separator.\<close>

definition section_text :: "env \<Rightarrow> file_item \<Rightarrow> string" where
  "section_text E file =
     separator @
     ''FILE: '' @ path_str (f_path file) @ nl @
     ''SIZE: '' @ str_nat (f_size file) @ '' bytes'' @ nl @
     ''TYPE: '' @ path_suffix (f_path file) @ nl @
     file_body E file @
     separator"

definition index_entry :: "env \<Rightarrow> file_item \<Rightarrow> file_record" where
  "index_entry E file =
     \<lparr>r_path = path_str (f_path file), r_size = f_size file,
      r_type = path_suffix (f_path file), r_checksum = calculate_checksum E (f_data file)\<rparr>"

text \<open>\<open>_write_file_content\<close> on the output written so far and the extractor.\<close>

definition write_file_content ::
  "env \<Rightarrow> file_item \<Rightarrow> string \<times> extractor \<Rightarrow> string \<times> extractor" where
  "write_file_content E file acc =
     (case acc of (output_file, self) \<Rightarrow>
        (output_file @ section_text E file,
         self\<lparr>file_index := file_index self @ [index_entry E file],
              total_size := total_size self + f_size file\<rparr>))"

text \<open>The three readings of the clock in a run, each already formatted.\<close>

record clock =
  t_structure :: string
  t_content :: string
  t_summary :: string

definition generated_at :: string where
  "generated_at =
     [CHR ''#'', CHR '' '', CHR 0xE7, CHR 0x94, CHR 0x9F, CHR 0xE6, CHR 0x88, CHR 0x90, CHR 0xE6,
      CHR 0x97, CHR 0xB6, CHR 0xE9, CHR 0x97, CHR 0xB4, CHR '':'', CHR '' '']"

definition structure_title :: string where
  "structure_title =
     [CHR '' '', CHR 0xE7, CHR 0x9B, CHR 0xAE, CHR 0xE5, CHR 0xBD, CHR 0x95, CHR 0xE7, CHR 0xBB,
      CHR 0x93, CHR 0xE6, CHR 0x9E, CHR 0x84]"

definition content_title :: string where
  "content_title =
     [CHR '' '', CHR 0xE6, CHR 0xA8, CHR 0xA1, CHR 0xE5, CHR 0x9D, CHR 0x97, CHR 0xE4, CHR 0xBB,
      CHR 0xA3, CHR 0xE7, CHR 0xA0, CHR 0x81, CHR 0xE5, CHR 0x86, CHR 0x85, CHR 0xE5, CHR 0xAE,
      CHR 0xB9]"

definition file_count_label :: string where
  "file_count_label =
     [CHR ''#'', CHR '' '', CHR 0xE6, CHR 0x96, CHR 0x87, CHR 0xE4, CHR 0xBB, CHR 0xB6, CHR 0xE6,
      CHR 0x80, CHR 0xBB, CHR 0xE6, CHR 0x95, CHR 0xB0, CHR '':'', CHR '' '']"

text \<open>One line of the structure listing.\<close>

fun structure_line :: "env \<Rightarrow> item \<Rightarrow> string" where
  "structure_line E (DirItem name p) =
     concat (replicate (length p - 1) ''  '') @ name @ ''/'' @ nl"
| "structure_line E (FileItem f) =
     concat (replicate (length (f_path f) - 1) ''  '') @ f_name f @
     '' ('' @ format_kb E (f_size f) @ ''KB)'' @ nl"

definition generate_tree_structure ::
  "env \<Rightarrow> string \<Rightarrow> string \<Rightarrow> fsnode list option \<Rightarrow> string" where
  "generate_tree_structure E now module_name root =
     ''# '' @ module_name @ structure_title @ nl @
     generated_at @ now @ nl @ nl @
     concat (map (structure_line E) (walk_directory [] root))"

text \<open>The items of the walk whose type is \<open>"file"\<close>.\<close>

fun files_of :: "item list \<Rightarrow> file_item list" where
  "files_of [] = []"
| "files_of (DirItem name p # items) = files_of items"
| "files_of (FileItem f # items) = f # files_of items"

text \<open>\<open>list.sort(key=...)\<close> is stable, as \<^const>\<open>sort_key\<close> is.\<close>

definition sorted_files :: "fsnode list option \<Rightarrow> file_item list" where
  "sorted_files root =
     sort_key (\<lambda>x. get_file_priority (f_path x)) (files_of (walk_directory [] root))"

definition content_header :: "string \<Rightarrow> string \<Rightarrow> nat \<Rightarrow> string" where
  "content_header now module_name n =
     ''# '' @ module_name @ content_title @ nl @
     generated_at @ now @ nl @
     file_count_label @ str_nat n @ nl @ nl"

text \<open>\<open>_extract_files\<close>: the content file written and the extractor after it.\<close>

definition extract_files ::
  "env \<Rightarrow> string \<Rightarrow> string \<Rightarrow> fsnode list option \<Rightarrow> extractor \<Rightarrow> string \<times> extractor" where
  "extract_files E now module_name root self =
     (let all_files = sorted_files root in
      fold (write_file_content E) all_files
        (content_header now module_name (length all_files), self))"

section \<open>Manifest and summary\<close>

text \<open>
  What the extractor meets at the module root. \<open>_walk_directory\<close> lists the root with
  \<open>iterdir\<close>; \<open>_extract_manifest\<close> does not: it asks \<open>exists()\<close> of the path
  \<open>__manifest__.py\<close> under the root, outside its \<open>try\<close>, and then opens that path. A
  root that can be listed answers both from its entries. A root that cannot be listed
  (\<open>iterdir\<close> raises \<open>PermissionError\<close>) still answers the question about the manifest, in
  one of three ways: \<open>exists()\<close> raises \<open>PermissionError\<close> itself, or it returns \<open>False\<close>,
  or it returns \<open>True\<close> and \<open>open\<close> gives the bytes or fails.
\<close>

datatype manifest_probe = ProbeDenied | ProbeAbsent | ProbePresent read_result

datatype module_root = Listed "fsnode list" | Unlisted manifest_probe

text \<open>What \<open>self.module_path.iterdir()\<close> gives: \<open>None\<close> when it raises
  \<open>PermissionError\<close>.\<close>

fun root_listing :: "module_root \<Rightarrow> fsnode list option" where
  "root_listing (Listed entries) = Some entries"
| "root_listing (Unlisted probe) = None"

text \<open>
  What \<open>manifest_path.exists()\<close> and \<open>open(manifest_path)\<close> find. In a listed root the
  manifest is the entry \<open>__manifest__.py\<close>; \<open>exists()\<close> holds for a directory of that name
  too, which \<open>open\<close> then refuses.
\<close>

fun manifest_probe_of :: "module_root \<Rightarrow> manifest_probe" where
  "manifest_probe_of (Unlisted probe) = probe"
| "manifest_probe_of (Listed entries) =
     (case find (\<lambda>n. node_name n = ''__manifest__.py'') entries of
        None \<Rightarrow> ProbeAbsent
      | Some (FileNode name sz data) \<Rightarrow> ProbePresent data
      | Some (DirNode name listing) \<Rightarrow> ProbePresent (Inl ''[Errno 21] Is a directory''))"

text \<open>
  \<open>_extract_manifest\<close>. The exception of \<open>exists()\<close> is not caught and ends the run.
  Inside the \<open>try\<close>, every exception of \<open>open\<close>, \<open>read\<close> and \<open>ast.literal_eval\<close> gives the
  empty dict; a value \<open>ast.literal_eval\<close> returns is kept, whatever its type.
\<close>

definition extract_manifest :: "env \<Rightarrow> module_root \<Rightarrow> extractor \<Rightarrow> py_error + extractor" where
  "extract_manifest E root self =
     (case manifest_probe_of root of
        ProbeDenied \<Rightarrow> Inl PermissionError
      | ProbeAbsent \<Rightarrow> Inr self
      | ProbePresent data \<Rightarrow>
          (case read_text E data of
             Inl e \<Rightarrow> Inr (self\<lparr>module_info := PyDict []\<rparr>)
           | Inr content \<Rightarrow>
               (case literal_eval E content of
                  None \<Rightarrow> Inr (self\<lparr>module_info := PyDict []\<rparr>)
                | Some v \<Rightarrow> Inr (self\<lparr>module_info := v\<rparr>))))"

text \<open>\<open>d.get(key, default)\<close> on a dict, for a string key.\<close>

definition dict_get :: "(pyval \<times> pyval) list \<Rightarrow> string \<Rightarrow> pyval \<Rightarrow> pyval" where
  "dict_get d key dflt = (case map_of d (PyStr key) of Some v \<Rightarrow> v | None \<Rightarrow> dflt)"

text \<open>\<open>_count_file_types\<close>.\<close>

fun count_file_types :: "file_record list \<Rightarrow> (string \<rightharpoonup> nat) \<Rightarrow> (string \<rightharpoonup> nat)" where
  "count_file_types [] type_count = type_count"
| "count_file_types (file # files) type_count =
     count_file_types files
       (type_count(r_type file \<mapsto> (case type_count (r_type file) of None \<Rightarrow> 0 | Some n \<Rightarrow> n) + 1))"

text \<open>\<open>_generate_summary\<close>: \<open>self.module_info.get\<close> raises \<open>AttributeError\<close> unless the
  manifest evaluated to a dict (of the values \<open>ast.literal_eval\<close> returns, only a dict has
  a method \<open>get\<close>); the summary is built before the file is opened, and \<open>json.dump\<close> may
  raise on it.\<close>

definition generate_summary :: "env \<Rightarrow> string \<Rightarrow> string \<Rightarrow> extractor \<Rightarrow> py_error + summary" where
  "generate_summary E now module_name self =
     (case module_info self of
        PyDict d \<Rightarrow>
          (let summary =
             \<lparr>s_module_name = module_name,
              s_extraction_date = now,
              s_module_info = module_info self,
              s_total_files = length (file_index self),
              s_total_size_bytes = total_size self,
              s_file_types = count_file_types (file_index self) Map.empty,
              s_dependencies = dict_get d ''depends'' (PyList []),
              s_version = dict_get d ''version'' (PyStr ''unknown''),
              s_author = dict_get d ''author'' (PyStr ''unknown''),
              s_category = dict_get d ''category'' (PyStr ''unknown'')\<rparr>
           in case json_dump E summary of
                None \<Rightarrow> Inr summary
              | Some e \<Rightarrow> Inl e)
      | _ \<Rightarrow> Inl AttributeError)"

record index =
  i_module :: string
  i_files :: "file_record list"
  i_total_files :: nat
  i_total_size :: nat

definition create_index :: "string \<Rightarrow> extractor \<Rightarrow> index" where
  "create_index module_name self =
     \<lparr>i_module = module_name, i_files = file_index self,
      i_total_files = length (file_index self), i_total_size = total_size self\<rparr>"

text \<open>
  The output files of a run that gets past \<open>_extract_manifest\<close>. The structure and
  content files are written before the summary; when \<open>_generate_summary\<close> raises, the run
  ends there and no index is written.
\<close>

record run =
  structure_txt :: string
  content_txt :: string
  summary_json :: "py_error + summary"
  index_json :: "index option"

text \<open>The method \<open>extract\<close> of the class. When \<open>_extract_manifest\<close> raises, the run ends
  before any file is written.\<close>

definition extract_module :: "env \<Rightarrow> clock \<Rightarrow> string \<Rightarrow> module_root \<Rightarrow> py_error + run" where
  "extract_module E now module_name root =
     (case extract_manifest E root init of
        Inl e \<Rightarrow> Inl e
      | Inr self1 \<Rightarrow>
          (let tree = generate_tree_structure E (t_structure now) module_name (root_listing root);
               (content, self2) =
                  extract_files E (t_content now) module_name (root_listing root) self1;
               summary = generate_summary E (t_summary now) module_name self2
           in Inr \<lparr>structure_txt = tree,
                   content_txt = content,
                   summary_json = summary,
                   index_json = (case summary of Inl e \<Rightarrow> None
                                 | Inr s \<Rightarrow> Some (create_index module_name self2))\<rparr>))"
section \<open>Conditions the properties speak of\<close>

text \<open>
  The order in which \<open>iterdir\<close> reports the entries of a directory is the operating
  system's. The canonical form of a tree lists every directory by name; two listings of
  one tree, whose names are distinct within each directory, have the same canonical
  form. What a root that cannot be listed answers about its manifest is part of the
  tree.
\<close>

fun canonical :: "fsnode \<Rightarrow> fsnode" where
  "canonical (FileNode name sz data) = FileNode name sz data"
| "canonical (DirNode name None) = DirNode name None"
| "canonical (DirNode name (Some entries)) =
     DirNode name (Some (sort_key node_name (map canonical entries)))"

definition canonical_listing :: "fsnode list option \<Rightarrow> fsnode list option" where
  "canonical_listing listing =
     (case listing of
        None \<Rightarrow> None
      | Some entries \<Rightarrow> Some (sort_key node_name (map canonical entries)))"

fun canonical_root :: "module_root \<Rightarrow> module_root" where
  "canonical_root (Listed entries) = Listed (sort_key node_name (map canonical entries))"
| "canonical_root (Unlisted probe) = Unlisted probe"


section \<open>A worked example\<close>

text \<open>
  An environment for the examples: the decoder accepts ASCII bytes only, the parsers
  reject every text, \<open>json.dump\<close> never raises, the digest is constant and sizes are
  printed in whole kilobytes.
\<close>

definition example_env :: env where
  "example_env =
     \<lparr>md5 = (\<lambda>bs. 0),
      utf8_decode = (\<lambda>bs. if list_all (\<lambda>b. b < 128) bs then Inr (map (\<lambda>b. char_of (unat b)) bs)
                          else Inl ''invalid start byte''),
      ast_parse = (\<lambda>s. None),
      et_fromstring = (\<lambda>s. None),
      literal_eval = (\<lambda>s. None),
      json_dump = (\<lambda>s. None),
      format_kb = (\<lambda>n. str_nat (n div 1024))\<rparr>"

text \<open>A module root, listed out of order: two text files, an \<open>__init__.py\<close>, a manifest
  that holds the word \<open>import\<close> and so is no literal, a \<open>models\<close> directory, a \<open>.git\<close>
  directory that holds a Python file, and a directory that cannot be listed.\<close>

definition example_root :: module_root where
  "example_root =
     Listed [FileNode ''b.txt'' 3 (Inr [98, 98, 98]),
             FileNode ''__manifest__.py'' 6 (Inr [105, 109, 112, 111, 114, 116]),
             DirNode ''models'' (Some [FileNode ''m.py'' 1 (Inr [120])]),
             DirNode ''.git'' (Some [FileNode ''hook.py'' 2 (Inr [120, 120])]),
             FileNode ''a.txt'' 1 (Inr [255]),
             DirNode ''locked'' None,
             FileNode ''__init__.py'' 0 (Inr [])]"

definition example_clock :: clock where
  "example_clock =
     \<lparr>t_structure = ''2024-01-01 10:00:00'', t_content = ''2024-01-01 10:00:01'',
      t_summary = ''2024-01-01T10:00:02''\<rparr>"

text \<open>The same module root as a later run may see it: the entries in another order,
  the clock advanced.\<close>

definition example_relisted :: module_root where
  "example_relisted =
     Listed [FileNode ''__init__.py'' 0 (Inr []),
             DirNode ''locked'' None,
             FileNode ''a.txt'' 1 (Inr [255]),
             DirNode ''.git'' (Some [FileNode ''hook.py'' 2 (Inr [120, 120])]),
             DirNode ''models'' (Some [FileNode ''m.py'' 1 (Inr [120])]),
             FileNode ''__manifest__.py'' 6 (Inr [105, 109, 112, 111, 114, 116]),
             FileNode ''b.txt'' 3 (Inr [98, 98, 98])]"

definition example_clock_later :: clock where
  "example_clock_later =
     \<lparr>t_structure = ''2024-02-02 12:00:00'', t_content = ''2024-02-02 12:00:01'',
      t_summary = ''2024-02-02T12:00:02''\<rparr>"

text \<open>A manifest that is a literal and no dict: the list \<open>[1, 2]\<close>. The module root
  holds it beside an \<open>__init__.py\<close>, and the environment's \<open>ast.literal_eval\<close> evaluates
  it.\<close>

definition example_list_root :: module_root where
  "example_list_root =
     Listed [FileNode ''__init__.py'' 0 (Inr []),
             FileNode ''__manifest__.py'' 6 (Inr [91, 49, 44, 32, 50, 93])]"

definition example_list_env :: env where
  "example_list_env =
     example_env\<lparr>literal_eval :=
       (\<lambda>s. if s = ''[1, 2]'' then Some (PyList [PyInt 1, PyInt 2]) else None)\<rparr>"









text \<open>A data file with three records, and an environment whose XML parser returns it.\<close>

definition example_records :: element where
  "example_records =
     Element ''odoo'' []
       [Element ''data'' []
          [Element ''record'' [(''id'', ''a''), (''model'', ''res.partner'')] [],
           Element ''record'' [(''id'', ''b'')] [Element ''field'' [(''name'', ''x'')] []],
           Element ''record'' [(''id'', ''c'')] []]]"

definition example_xml_env :: env where
  "example_xml_env = example_env\<lparr>et_fromstring := (\<lambda>s. Some example_records)\<rparr>"

text \<open>A view file with a template and no record.\<close>

definition example_templates :: element where
  "example_templates = Element ''odoo'' [] [Element ''template'' [(''id'', ''t'')] []]"

definition example_view_env :: env where
  "example_view_env = example_env\<lparr>et_fromstring := (\<lambda>s. Some example_templates)\<rparr>"

text \<open>Files whose single byte is not UTF-8.\<close>

definition example_binary_py :: file_item where
  "example_binary_py = \<lparr>f_name = ''bad.py'', f_path = [''bad.py''], f_size = 1, f_data = Inr [255]\<rparr>"

definition example_binary_txt :: file_item where
  "example_binary_txt = \<lparr>f_name = ''a.txt'', f_path = [''a.txt''], f_size = 1, f_data = Inr [255]\<rparr>"

section \<open>The priority resolver decides as the table says\<close>

lemma exact_pass_find:
  "exact_pass tbl s = map_option snd (find (\<lambda>kv. fst kv = s) tbl)"
  by (induction tbl s rule: exact_pass.induct) auto

lemma glob_pass_find:
  "glob_pass tbl s =
     map_option snd (find (\<lambda>kv. CHR ''*'' \<in> set (fst kv) \<and> fnmatch s (fst kv)) tbl)"
  by (induction tbl s rule: glob_pass.induct) auto

lemma exact_pass_in_table: "exact_pass tbl s = Some v \<Longrightarrow> v \<in> snd ` set tbl"
  by (induction tbl s rule: exact_pass.induct) (auto split: if_splits)

lemma glob_pass_in_table: "glob_pass tbl s = Some v \<Longrightarrow> v \<in> snd ` set tbl"
  by (induction tbl s rule: glob_pass.induct) (auto split: if_splits)

text \<open>
  Claim C3. The resolver takes the relative path with its separators normalised. If a
  key of the table equals it, the priority of the first such key in declaration order
  is returned. Otherwise, if a key holding a star matches it as a glob, the priority of
  the first such key in declaration order is returned. Otherwise the result is 999,
  which is above every priority the table declares: no path has a higher value, so the
  files no key matches sort last, and the sorted list still holds every file of the
  walk.
\<close>

theorem priority_passes:
  "(find (\<lambda>kv. fst kv = replace_backslashes (path_str p)) PRIORITY_FILES = Some (k, pr)
      \<longrightarrow> get_file_priority p = pr) \<and>
   (find (\<lambda>kv. fst kv = replace_backslashes (path_str p)) PRIORITY_FILES = None \<and>
    find (\<lambda>kv. CHR ''*'' \<in> set (fst kv) \<and> fnmatch (replace_backslashes (path_str p)) (fst kv))
      PRIORITY_FILES = Some (k', pr')
      \<longrightarrow> get_file_priority p = pr') \<and>
   (find (\<lambda>kv. fst kv = replace_backslashes (path_str p)) PRIORITY_FILES = None \<and>
    find (\<lambda>kv. CHR ''*'' \<in> set (fst kv) \<and> fnmatch (replace_backslashes (path_str p)) (fst kv))
      PRIORITY_FILES = None
      \<longrightarrow> get_file_priority p = 999) \<and>
   (\<forall>kv \<in> set PRIORITY_FILES. snd kv < 999) \<and>
   get_file_priority q \<le> 999 \<and>
   mset (sorted_files root) = mset (files_of (walk_directory [] root))"
proof -
  have small: "\<forall>kv \<in> set PRIORITY_FILES. snd kv < 999"
    by (simp add: PRIORITY_FILES_def)
  have passes: "(find (\<lambda>kv. fst kv = replace_backslashes (path_str p)) PRIORITY_FILES = Some (k, pr)
      \<longrightarrow> get_file_priority p = pr) \<and>
   (find (\<lambda>kv. fst kv = replace_backslashes (path_str p)) PRIORITY_FILES = None \<and>
    find (\<lambda>kv. CHR ''*'' \<in> set (fst kv) \<and> fnmatch (replace_backslashes (path_str p)) (fst kv))
      PRIORITY_FILES = Some (k', pr')
      \<longrightarrow> get_file_priority p = pr') \<and>
   (find (\<lambda>kv. fst kv = replace_backslashes (path_str p)) PRIORITY_FILES = None \<and>
    find (\<lambda>kv. CHR ''*'' \<in> set (fst kv) \<and> fnmatch (replace_backslashes (path_str p)) (fst kv))
      PRIORITY_FILES = None
      \<longrightarrow> get_file_priority p = 999)"
    by (simp add: get_file_priority_def exact_pass_find glob_pass_find)
  have bound: "get_file_priority q \<le> 999"
  proof (cases "exact_pass PRIORITY_FILES (replace_backslashes (path_str q))")
    case (Some v)
    from exact_pass_in_table [OF this] small have "v < 999" by auto
    with Some show ?thesis by (simp add: get_file_priority_def)
  next
    case None
    show ?thesis
    proof (cases "glob_pass PRIORITY_FILES (replace_backslashes (path_str q))")
      case (Some v)
      from glob_pass_in_table [OF this] small have "v < 999" by auto
      with None Some show ?thesis by (simp add: get_file_priority_def)
    next
      case inner: None
      with None show ?thesis by (simp add: get_file_priority_def)
    qed
  qed
  have kept: "mset (sorted_files root) = mset (files_of (walk_directory [] root))"
    by (simp add: sorted_files_def)
  from passes small bound kept show ?thesis
    by (intro conjI) (erule conjunct1, erule conjunct2 [THEN conjunct1],
        erule conjunct2 [THEN conjunct2], assumption+)
qed

theorem priority_passes_witness:
  "get_file_priority [''__init__.py''] = 2 \<and> get_file_priority [''views'', ''a.xml''] = 4
   \<and> get_file_priority [''README.txt''] = 999 \<and> (10::int) < 999"
proof -
  have r1: "replace_backslashes (path_str [''__init__.py'']) = ''__init__.py''"
    by (simp add: path_str_def backslash_def)
  have e1: "find (\<lambda>kv. fst kv = replace_backslashes (path_str [''__init__.py''])) PRIORITY_FILES
      = Some (''__init__.py'', 2)"
    unfolding r1 by (simp add: PRIORITY_FILES_def)
  have a: "get_file_priority [''__init__.py''] = 2"
    using priority_passes [of "[''__init__.py'']" "''__init__.py''" 2] e1 by blast
  have r2: "replace_backslashes (path_str [''views'', ''a.xml'']) = ''views/a.xml''"
    by (simp add: path_str_def backslash_def)
  have e2: "find (\<lambda>kv. fst kv = replace_backslashes (path_str [''views'', ''a.xml''])) PRIORITY_FILES
      = None"
    unfolding r2 by (simp add: PRIORITY_FILES_def)
  have g2: "find (\<lambda>kv. CHR ''*'' \<in> set (fst kv) \<and>
        fnmatch (replace_backslashes (path_str [''views'', ''a.xml''])) (fst kv)) PRIORITY_FILES
      = Some (''views/*.xml'', 4)"
    unfolding r2 by (simp add: PRIORITY_FILES_def)
  have b: "get_file_priority [''views'', ''a.xml''] = 4"
    using priority_passes [of "[''views'', ''a.xml'']" _ _ "''views/*.xml''" 4] e2 g2 by blast
  have r3: "replace_backslashes (path_str [''README.txt'']) = ''README.txt''"
    by (simp add: path_str_def backslash_def)
  have e3: "find (\<lambda>kv. fst kv = replace_backslashes (path_str [''README.txt''])) PRIORITY_FILES
      = None"
    unfolding r3 by (simp add: PRIORITY_FILES_def)
  have g3: "find (\<lambda>kv. CHR ''*'' \<in> set (fst kv) \<and>
        fnmatch (replace_backslashes (path_str [''README.txt''])) (fst kv)) PRIORITY_FILES
      = None"
    unfolding r3 by (simp add: PRIORITY_FILES_def)
  have c: "get_file_priority [''README.txt''] = 999"
    using priority_passes [of "[''README.txt'']"] e3 g3 by blast
  from a b c show ?thesis by simp
qed

lemma replace_backslashes_plain:
  "a \<noteq> backslash \<Longrightarrow> replace_backslashes (a # cs) = a # replace_backslashes cs"
  by (cases cs) auto

lemma replace_backslashes_prefix:
  "backslash \<notin> set pre \<Longrightarrow> replace_backslashes (pre @ xs) = pre @ replace_backslashes xs"
  by (induction pre) (auto simp: replace_backslashes_plain)

lemma replace_backslashes_suffix:
  "backslash \<notin> set suf \<Longrightarrow> \<exists>m. replace_backslashes (mid @ suf) = m @ suf"
proof (induction mid rule: induct_list012)
  case 1
  then have "replace_backslashes ([] @ suf) = [] @ suf"
    using replace_backslashes_prefix [of suf "[]"] by simp
  then show ?case by blast
next
  case (2 v)
  have s: "replace_backslashes suf = suf"
    using 2 replace_backslashes_prefix [of suf "[]"] by simp
  have "replace_backslashes ([v] @ suf) = [v] @ suf"
  proof (cases suf)
    case Nil
    then show ?thesis by simp
  next
    case (Cons c cs)
    with 2 have "c \<noteq> backslash" by auto
    with Cons s show ?thesis by auto
  qed
  then show ?case by blast
next
  case (3 a b cs)
  show ?case
  proof (cases "a = backslash \<and> b = backslash")
    case True
    with 3 obtain m where "replace_backslashes (cs @ suf) = m @ suf" by auto
    with True have "replace_backslashes ((a # b # cs) @ suf) = (CHR ''/'' # m) @ suf" by simp
    then show ?thesis by blast
  next
    case False
    with 3 obtain m where "replace_backslashes ((b # cs) @ suf) = m @ suf" by auto
    with False have "replace_backslashes ((a # b # cs) @ suf) = (a # m) @ suf" by auto
    then show ?thesis by blast
  qed
qed

lemma fnmatch_literal: "CHR ''*'' \<notin> set xs \<Longrightarrow> fnmatch xs xs"
  by (induction xs) auto

lemma fnmatch_star: "CHR ''*'' \<notin> set suf \<Longrightarrow> fnmatch (mid @ suf) (CHR ''*'' # suf)"
proof (induction mid)
  case Nil
  then show ?case by (cases suf) (auto simp: fnmatch_literal)
next
  case (Cons m mid)
  then show ?case by simp
qed


lemma split_at_star:
  assumes "pre @ ''*'' @ suf = a @ ''*'' @ b" and "CHR ''*'' \<notin> set a" and "CHR ''*'' \<notin> set b"
  shows "pre = a \<and> suf = b"
proof -
  from assms(1) obtain us where
    "(pre = a @ us \<and> us @ ''*'' @ suf = ''*'' @ b) \<or> (pre @ us = a \<and> ''*'' @ suf = us @ ''*'' @ b)"
    by (auto simp: append_eq_append_conv2)
  then show ?thesis
  proof
    assume h: "pre = a @ us \<and> us @ ''*'' @ suf = ''*'' @ b"
    show ?thesis
    proof (cases us)
      case Nil
      with h show ?thesis by simp
    next
      case (Cons u us')
      with h have "b = us' @ ''*'' @ suf" by simp
      with assms(3) show ?thesis by simp
    qed
  next
    assume h: "pre @ us = a \<and> ''*'' @ suf = us @ ''*'' @ b"
    show ?thesis
    proof (cases us)
      case Nil
      with h show ?thesis by simp
    next
      case (Cons u us')
      with h have "u = CHR ''*''" by simp
      with h Cons have "CHR ''*'' \<in> set a" by auto
      with assms(2) show ?thesis by simp
    qed
  qed
qed


lemma star_cases:
  assumes "(pre @ ''*'' @ suf, pr) \<in> set PRIORITY_FILES"
  shows "pre @ ''*'' @ suf = ''__manifest__.py'' \<or>
     pre @ ''*'' @ suf = ''__init__.py'' \<or>
     pre @ ''*'' @ suf = ''models/'' @ ''*'' @ ''.py'' \<and> pr = 3 \<or>
     pre @ ''*'' @ suf = ''views/'' @ ''*'' @ ''.xml'' \<and> pr = 4 \<or>
     pre @ ''*'' @ suf = ''security/'' @ ''*'' @ ''.csv'' \<and> pr = 5 \<or>
     pre @ ''*'' @ suf = ''data/'' @ ''*'' @ ''.xml'' \<and> pr = 6 \<or>
     pre @ ''*'' @ suf = ''wizard/'' @ ''*'' @ ''.py'' \<and> pr = 7 \<or>
     pre @ ''*'' @ suf = ''controllers/'' @ ''*'' @ ''.py'' \<and> pr = 8 \<or>
     pre @ ''*'' @ suf = ''static/src/'' @ ''*'' @ ''.js'' \<and> pr = 9 \<or>
     pre @ ''*'' @ suf = ''reports/'' @ ''*'' @ ''.xml'' \<and> pr = 10"
  using assms unfolding PRIORITY_FILES_def by simp blast


lemma star_keys:
  assumes "(pre @ ''*'' @ suf, pr) \<in> set PRIORITY_FILES"
  shows "(pre, suf, pr) \<in> {(''models/'', ''.py'', 3), (''views/'', ''.xml'', 4),
     (''security/'', ''.csv'', 5), (''data/'', ''.xml'', 6), (''wizard/'', ''.py'', 7),
     (''controllers/'', ''.py'', 8), (''static/src/'', ''.js'', 9), (''reports/'', ''.xml'', 10)}"
  using star_cases [OF assms]
proof (elim disjE conjE)
  assume "pre @ ''*'' @ suf = ''__manifest__.py''"
  then have "CHR ''*'' \<in> set ''__manifest__.py''" by (metis append_Cons in_set_conv_decomp)
  then show ?thesis by simp
next
  assume "pre @ ''*'' @ suf = ''__init__.py''"
  then have "CHR ''*'' \<in> set ''__init__.py''" by (metis append_Cons in_set_conv_decomp)
  then show ?thesis by simp
next
  assume "pre @ ''*'' @ suf = ''models/'' @ ''*'' @ ''.py''" and "pr = 3"
  then show ?thesis using split_at_star [of pre suf "''models/''" "''.py''"] by simp
next
  assume "pre @ ''*'' @ suf = ''views/'' @ ''*'' @ ''.xml''" and "pr = 4"
  then show ?thesis using split_at_star [of pre suf "''views/''" "''.xml''"] by simp
next
  assume "pre @ ''*'' @ suf = ''security/'' @ ''*'' @ ''.csv''" and "pr = 5"
  then show ?thesis using split_at_star [of pre suf "''security/''" "''.csv''"] by simp
next
  assume "pre @ ''*'' @ suf = ''data/'' @ ''*'' @ ''.xml''" and "pr = 6"
  then show ?thesis using split_at_star [of pre suf "''data/''" "''.xml''"] by simp
next
  assume "pre @ ''*'' @ suf = ''wizard/'' @ ''*'' @ ''.py''" and "pr = 7"
  then show ?thesis using split_at_star [of pre suf "''wizard/''" "''.py''"] by simp
next
  assume "pre @ ''*'' @ suf = ''controllers/'' @ ''*'' @ ''.py''" and "pr = 8"
  then show ?thesis using split_at_star [of pre suf "''controllers/''" "''.py''"] by simp
next
  assume "pre @ ''*'' @ suf = ''static/src/'' @ ''*'' @ ''.js''" and "pr = 9"
  then show ?thesis using split_at_star [of pre suf "''static/src/''" "''.js''"] by simp
next
  assume "pre @ ''*'' @ suf = ''reports/'' @ ''*'' @ ''.xml''" and "pr = 10"
  then show ?thesis using split_at_star [of pre suf "''reports/''" "''.xml''"] by simp
qed

lemma normalized_shape:
  assumes "backslash \<notin> set pre" and "backslash \<notin> set suf"
  shows "\<exists>m. replace_backslashes (pre @ mid @ suf) = pre @ m @ suf"
  using replace_backslashes_prefix [OF assms(1), of "mid @ suf"]
    replace_backslashes_suffix [OF assms(2), of mid] by auto

lemma priority_from_passes:
  assumes "replace_backslashes (path_str p) = s"
    and "exact_pass PRIORITY_FILES s = None \<or> exact_pass PRIORITY_FILES s = Some pr"
    and "glob_pass PRIORITY_FILES s = Some pr"
  shows "get_file_priority p = pr"
  using assms by (auto simp: get_file_priority_def)

lemma priority_of_shape:
  assumes "(pre, suf, pr) \<in> {(''models/'', ''.py'', 3), (''views/'', ''.xml'', 4),
     (''security/'', ''.csv'', 5), (''data/'', ''.xml'', 6), (''wizard/'', ''.py'', 7),
     (''controllers/'', ''.py'', 8), (''static/src/'', ''.js'', 9), (''reports/'', ''.xml'', 10)}"
    and "replace_backslashes (path_str p) = pre @ m @ suf"
  shows "get_file_priority p = pr"
  using assms(1)
proof (simp only: insert_iff empty_iff prod.inject, elim disjE conjE FalseE)
  assume c: "pre = ''models/''" "suf = ''.py''" "pr = 3"
  have star: "fnmatch (m @ ''.py'') (CHR ''*'' # ''.py'')"
    by (rule fnmatch_star) simp
  have e: "exact_pass PRIORITY_FILES (pre @ m @ suf) = None \<or>
      exact_pass PRIORITY_FILES (pre @ m @ suf) = Some pr"
    unfolding c by (simp add: PRIORITY_FILES_def)
  have g: "glob_pass PRIORITY_FILES (pre @ m @ suf) = Some pr"
    unfolding c using star by (simp add: PRIORITY_FILES_def)
  from assms(2) e g show ?thesis
    by (rule priority_from_passes)
next
  assume c: "pre = ''views/''" "suf = ''.xml''" "pr = 4"
  have star: "fnmatch (m @ ''.xml'') (CHR ''*'' # ''.xml'')"
    by (rule fnmatch_star) simp
  have e: "exact_pass PRIORITY_FILES (pre @ m @ suf) = None \<or>
      exact_pass PRIORITY_FILES (pre @ m @ suf) = Some pr"
    unfolding c by (simp add: PRIORITY_FILES_def)
  have g: "glob_pass PRIORITY_FILES (pre @ m @ suf) = Some pr"
    unfolding c using star by (simp add: PRIORITY_FILES_def)
  from assms(2) e g show ?thesis
    by (rule priority_from_passes)
next
  assume c: "pre = ''security/''" "suf = ''.csv''" "pr = 5"
  have star: "fnmatch (m @ ''.csv'') (CHR ''*'' # ''.csv'')"
    by (rule fnmatch_star) simp
  have e: "exact_pass PRIORITY_FILES (pre @ m @ suf) = None \<or>
      exact_pass PRIORITY_FILES (pre @ m @ suf) = Some pr"
    unfolding c by (simp add: PRIORITY_FILES_def)
  have g: "glob_pass PRIORITY_FILES (pre @ m @ suf) = Some pr"
    unfolding c using star by (simp add: PRIORITY_FILES_def)
  from assms(2) e g show ?thesis
    by (rule priority_from_passes)
next
  assume c: "pre = ''data/''" "suf = ''.xml''" "pr = 6"
  have star: "fnmatch (m @ ''.xml'') (CHR ''*'' # ''.xml'')"
    by (rule fnmatch_star) simp
  have e: "exact_pass PRIORITY_FILES (pre @ m @ suf) = None \<or>
      exact_pass PRIORITY_FILES (pre @ m @ suf) = Some pr"
    unfolding c by (simp add: PRIORITY_FILES_def)
  have g: "glob_pass PRIORITY_FILES (pre @ m @ suf) = Some pr"
    unfolding c using star by (simp add: PRIORITY_FILES_def)
  from assms(2) e g show ?thesis
    by (rule priority_from_passes)
next
  assume c: "pre = ''wizard/''" "suf = ''.py''" "pr = 7"
  have star: "fnmatch (m @ ''.py'') (CHR ''*'' # ''.py'')"
    by (rule fnmatch_star) simp
  have e: "exact_pass PRIORITY_FILES (pre @ m @ suf) = None \<or>
      exact_pass PRIORITY_FILES (pre @ m @ suf) = Some pr"
    unfolding c by (simp add: PRIORITY_FILES_def)
  have g: "glob_pass PRIORITY_FILES (pre @ m @ suf) = Some pr"
    unfolding c using star by (simp add: PRIORITY_FILES_def)
  from assms(2) e g show ?thesis
    by (rule priority_from_passes)
next
  assume c: "pre = ''controllers/''" "suf = ''.py''" "pr = 8"
  have star: "fnmatch (m @ ''.py'') (CHR ''*'' # ''.py'')"
    by (rule fnmatch_star) simp
  have e: "exact_pass PRIORITY_FILES (pre @ m @ suf) = None \<or>
      exact_pass PRIORITY_FILES (pre @ m @ suf) = Some pr"
    unfolding c by (simp add: PRIORITY_FILES_def)
  have g: "glob_pass PRIORITY_FILES (pre @ m @ suf) = Some pr"
    unfolding c using star by (simp add: PRIORITY_FILES_def)
  from assms(2) e g show ?thesis
    by (rule priority_from_passes)
next
  assume c: "pre = ''static/src/''" "suf = ''.js''" "pr = 9"
  have star: "fnmatch (m @ ''.js'') (CHR ''*'' # ''.js'')"
    by (rule fnmatch_star) simp
  have e: "exact_pass PRIORITY_FILES (pre @ m @ suf) = None \<or>
      exact_pass PRIORITY_FILES (pre @ m @ suf) = Some pr"
    unfolding c by (simp add: PRIORITY_FILES_def)
  have g: "glob_pass PRIORITY_FILES (pre @ m @ suf) = Some pr"
    unfolding c using star by (simp add: PRIORITY_FILES_def)
  from assms(2) e g show ?thesis
    by (rule priority_from_passes)
next
  assume c: "pre = ''reports/''" "suf = ''.xml''" "pr = 10"
  have star: "fnmatch (m @ ''.xml'') (CHR ''*'' # ''.xml'')"
    by (rule fnmatch_star) simp
  have e: "exact_pass PRIORITY_FILES (pre @ m @ suf) = None \<or>
      exact_pass PRIORITY_FILES (pre @ m @ suf) = Some pr"
    unfolding c by (simp add: PRIORITY_FILES_def)
  have g: "glob_pass PRIORITY_FILES (pre @ m @ suf) = Some pr"
    unfolding c using star by (simp add: PRIORITY_FILES_def)
  from assms(2) e g show ?thesis
    by (rule priority_from_passes)
qed

lemma shape_facts:
  assumes "(pre, suf, pr) \<in> {(''models/'', ''.py'', 3::int), (''views/'', ''.xml'', 4),
     (''security/'', ''.csv'', 5), (''data/'', ''.xml'', 6), (''wizard/'', ''.py'', 7),
     (''controllers/'', ''.py'', 8), (''static/src/'', ''.js'', 9), (''reports/'', ''.xml'', 10)}"
  shows "backslash \<notin> set pre \<and> backslash \<notin> set suf \<and> pr < 999"
  using assms
  by (simp only: insert_iff empty_iff prod.inject) (elim disjE conjE FalseE; simp add: backslash_def)

text \<open>
  Claim C10. The star of a key matches across path separators: for every key
  \<open>pre*suf\<close> of the table and every relative path that reads \<open>pre\<close>, then any text
  at all (further separators included), then \<open>suf\<close>, the resolver returns that key's
  priority, which is below the default 999.
\<close>

theorem star_crosses_separators:
  assumes "(pre @ ''*'' @ suf, pr) \<in> set PRIORITY_FILES"
    and "path_str p = pre @ mid @ suf"
  shows "get_file_priority p = pr \<and> pr < 999"
proof -
  have shape: "(pre, suf, pr) \<in> {(''models/'', ''.py'', 3), (''views/'', ''.xml'', 4),
     (''security/'', ''.csv'', 5), (''data/'', ''.xml'', 6), (''wizard/'', ''.py'', 7),
     (''controllers/'', ''.py'', 8), (''static/src/'', ''.js'', 9), (''reports/'', ''.xml'', 10)}"
    using assms(1) by (rule star_keys)
  from shape_facts [OF shape]
  have "backslash \<notin> set pre" and "backslash \<notin> set suf" and small: "pr < 999"
    by blast+
  then obtain m where "replace_backslashes (pre @ mid @ suf) = pre @ m @ suf"
    using normalized_shape by blast
  with assms(2) have "replace_backslashes (path_str p) = pre @ m @ suf"
    by simp
  with shape have "get_file_priority p = pr"
    by (rule priority_of_shape)
  with small show ?thesis by simp
qed

theorem star_crosses_separators_witness:
  "get_file_priority [''models'', ''sub'', ''name.py''] = 3 \<and> (3::int) < 999"
proof -
  have k: "(''models/'' @ ''*'' @ ''.py'', 3) \<in> set PRIORITY_FILES"
    by (simp add: PRIORITY_FILES_def)
  have p: "path_str [''models'', ''sub'', ''name.py''] = ''models/'' @ ''sub/name'' @ ''.py''"
    by (simp add: path_str_def)
  from star_crosses_separators [OF k p] show ?thesis .
qed

section \<open>The assembler: bundle, index and summary\<close>

lemma fold_write_file_content:
  "fold (write_file_content E) fs (out, self) =
     (out @ concat (map (section_text E) fs),
      self\<lparr>file_index := file_index self @ map (index_entry E) fs,
           total_size := total_size self + sum_list (map f_size fs)\<rparr>)"
  by (induction fs arbitrary: out self) (simp_all add: write_file_content_def)

lemma extract_files_eq:
  "extract_files E now name listing self =
     (content_header now name (length (sorted_files listing)) @
        concat (map (section_text E) (sorted_files listing)),
      self\<lparr>file_index := file_index self @ map (index_entry E) (sorted_files listing),
           total_size := total_size self + sum_list (map f_size (sorted_files listing))\<rparr>)"
  by (simp add: extract_files_def Let_def fold_write_file_content)

lemma module_info_extract_files:
  "module_info (snd (extract_files E now name listing self)) = module_info self"
  by (simp add: extract_files_eq)

lemma extract_manifest_keeps_index:
  "extract_manifest E root self = Inr self1 \<Longrightarrow>
     file_index self1 = file_index self \<and> total_size self1 = total_size self"
  by (auto simp: extract_manifest_def split: manifest_probe.splits option.splits sum.splits)

text \<open>The run ends in \<open>_extract_manifest\<close> exactly when \<open>exists()\<close> raises.\<close>

lemma extract_manifest_raises:
  "extract_manifest E root self = Inl e \<longleftrightarrow> manifest_probe_of root = ProbeDenied \<and> e = PermissionError"
  by (auto simp: extract_manifest_def split: manifest_probe.splits option.splits sum.splits)

lemma extract_manifest_returns:
  "manifest_probe_of root \<noteq> ProbeDenied \<Longrightarrow> \<exists>self1. extract_manifest E root self = Inr self1"
  using extract_manifest_raises [of E root self] by (cases "extract_manifest E root self") auto

lemma extract_module_raises:
  "extract_module E now name root = Inl e \<longleftrightarrow> manifest_probe_of root = ProbeDenied \<and> e = PermissionError"
  using extract_manifest_raises [of E root init e]
  by (auto simp: extract_module_def Let_def split_beta split: sum.splits)

lemma extract_module_returns:
  "manifest_probe_of root \<noteq> ProbeDenied \<Longrightarrow> \<exists>r. extract_module E now name root = Inr r"
  using extract_module_raises [of E now name root] by (cases "extract_module E now name root") auto

lemma listed_root_returns: "\<exists>r. extract_module E now name (Listed entries) = Inr r"
proof (rule extract_module_returns)
  show "manifest_probe_of (Listed entries) \<noteq> ProbeDenied"
    by (simp split: option.splits fsnode.splits)
qed

lemma content_txt_eq:
  "extract_module E now name root = Inr r \<Longrightarrow>
   content_txt r =
     content_header (t_content now) name (length (sorted_files (root_listing root))) @
       concat (map (section_text E) (sorted_files (root_listing root)))"
  by (auto simp: extract_module_def Let_def extract_files_eq split: sum.splits)

lemma structure_txt_eq:
  "extract_module E now name root = Inr r \<Longrightarrow>
   structure_txt r = generate_tree_structure E (t_structure now) name (root_listing root)"
  by (auto simp: extract_module_def Let_def split_beta split: sum.splits)

lemma index_json_eq:
  "extract_module E now name root = Inr r \<Longrightarrow> index_json r = Some idx \<Longrightarrow>
     i_files idx = map (index_entry E) (sorted_files (root_listing root)) \<and>
     i_total_files idx = length (sorted_files (root_listing root)) \<and>
     i_total_size idx = sum_list (map f_size (sorted_files (root_listing root)))"
  by (auto simp: extract_module_def Let_def extract_files_eq create_index_def init_def
      dest!: extract_manifest_keeps_index split: sum.splits)

lemma summary_json_eq:
  "extract_module E now name root = Inr r \<Longrightarrow> summary_json r = Inr s \<Longrightarrow>
     s_total_files s = length (sorted_files (root_listing root)) \<and>
     s_total_size_bytes s = sum_list (map f_size (sorted_files (root_listing root))) \<and>
     (\<exists>idx. index_json r = Some idx)"
  by (auto simp: extract_module_def Let_def extract_files_eq generate_summary_def init_def
      dest!: extract_manifest_keeps_index split: sum.splits pyval.splits option.splits)

lemma sorted_files_sorted:
  "sorted (map (\<lambda>f. get_file_priority (f_path f)) (sorted_files listing))"
  by (simp add: sorted_files_def)

lemma sorted_files_stable:
  "filter (\<lambda>f. get_file_priority (f_path f) = k) (sorted_files listing) =
   filter (\<lambda>f. get_file_priority (f_path f) = k) (files_of (walk_directory [] listing))"
  unfolding sorted_files_def by (rule sort_key_stable)

lemma sorted_files_mset:
  "mset (sorted_files listing) = mset (files_of (walk_directory [] listing))"
  by (simp add: sorted_files_def)

section \<open>The manifest\<close>

text \<open>
  What \<open>_extract_manifest\<close> leaves in \<open>module_info\<close>: the empty dict when there is no
  manifest, when it cannot be read as text and when \<open>ast.literal_eval\<close> raises; and the
  value of the literal otherwise, dict or not.
\<close>

lemma extract_manifest_absent:
  "manifest_probe_of root = ProbeAbsent \<Longrightarrow> extract_manifest E root init = Inr init"
  by (simp add: extract_manifest_def)

lemma extract_manifest_unreadable:
  "manifest_probe_of root = ProbePresent data \<Longrightarrow> read_text E data = Inl e \<Longrightarrow>
   extract_manifest E root init = Inr init"
  by (simp add: extract_manifest_def init_def)

lemma extract_manifest_rejected:
  "manifest_probe_of root = ProbePresent data \<Longrightarrow> read_text E data = Inr content \<Longrightarrow>
   literal_eval E content = None \<Longrightarrow> extract_manifest E root init = Inr init"
  by (simp add: extract_manifest_def init_def)

lemma extract_manifest_literal:
  "manifest_probe_of root = ProbePresent data \<Longrightarrow> read_text E data = Inr content \<Longrightarrow>
   literal_eval E content = Some v \<Longrightarrow>
   extract_manifest E root init = Inr (init\<lparr>module_info := v\<rparr>)"
  by (simp add: extract_manifest_def)

text \<open>With the empty dict the summary holds the default values, and it is written unless
  \<open>json.dump\<close> raises.\<close>

lemma generate_summary_empty:
  "module_info self = PyDict [] \<Longrightarrow>
   generate_summary E now name self =
     (let summary =
        \<lparr>s_module_name = name, s_extraction_date = now, s_module_info = PyDict [],
         s_total_files = length (file_index self), s_total_size_bytes = total_size self,
         s_file_types = count_file_types (file_index self) Map.empty,
         s_dependencies = PyList [], s_version = PyStr ''unknown'',
         s_author = PyStr ''unknown'', s_category = PyStr ''unknown''\<rparr>
      in case json_dump E summary of None \<Rightarrow> Inr summary | Some e \<Rightarrow> Inl e)"
  by (simp add: generate_summary_def dict_get_def)

text \<open>A manifest that evaluates to a literal which is no dict is kept, and
  \<open>_generate_summary\<close> then raises.\<close>

lemma summary_needs_a_dict:
  "\<forall>d. module_info self \<noteq> PyDict d \<Longrightarrow> generate_summary E now name self = Inl AttributeError"
  by (cases "module_info self") (simp_all add: generate_summary_def)

lemma example_list_probe:
  "manifest_probe_of example_list_root = ProbePresent (Inr [91, 49, 44, 32, 50, 93])"
  by code_simp

lemma example_list_text: "read_text example_list_env (Inr [91, 49, 44, 32, 50, 93]) = Inr ''[1, 2]''"
  by code_simp

lemma example_list_value:
  "literal_eval example_list_env ''[1, 2]'' = Some (PyList [PyInt 1, PyInt 2])"
  by (simp add: example_list_env_def)

text \<open>
  Claim C7 does not hold of the code. The manifest \<open>[1, 2]\<close> is a literal, so
  \<open>ast.literal_eval\<close> returns it and the \<open>except\<close> branch is not taken: \<open>module_info\<close> is
  the list, not the empty dict. The structure and content files are written; then
  \<open>_generate_summary\<close> calls \<open>self.module_info.get\<close>, which a list does not have, and the
  run ends with \<open>AttributeError\<close>: no summary and no index are written.
\<close>

theorem manifest_list_ends_run:
  "manifest_probe_of example_list_root = ProbePresent (Inr [91, 49, 44, 32, 50, 93]) \<and>
   read_text example_list_env (Inr [91, 49, 44, 32, 50, 93]) = Inr ''[1, 2]'' \<and>
   literal_eval example_list_env ''[1, 2]'' = Some (PyList [PyInt 1, PyInt 2]) \<and>
   extract_manifest example_list_env example_list_root init =
     Inr (init\<lparr>module_info := PyList [PyInt 1, PyInt 2]\<rparr>) \<and>
   \<not> isl (extract_module example_list_env example_clock ''demo'' example_list_root) \<and>
   summary_json (projr (extract_module example_list_env example_clock ''demo'' example_list_root)) =
     Inl AttributeError \<and>
   index_json (projr (extract_module example_list_env example_clock ''demo'' example_list_root)) =
     None"
proof -
  have m: "extract_manifest example_list_env example_list_root init =
      Inr (init\<lparr>module_info := PyList [PyInt 1, PyInt 2]\<rparr>)"
    using example_list_probe example_list_text example_list_value
    by (rule extract_manifest_literal)
  have "generate_summary example_list_env (t_summary example_clock) ''demo''
      (snd (extract_files example_list_env (t_content example_clock) ''demo''
         (root_listing example_list_root) (init\<lparr>module_info := PyList [PyInt 1, PyInt 2]\<rparr>))) =
      Inl AttributeError"
    by (rule summary_needs_a_dict) (simp add: module_info_extract_files)
  then have r: "\<not> isl (extract_module example_list_env example_clock ''demo'' example_list_root)"
    "summary_json (projr (extract_module example_list_env example_clock ''demo'' example_list_root)) =
       Inl AttributeError"
    "index_json (projr (extract_module example_list_env example_clock ''demo'' example_list_root)) =
       None"
    by (simp_all add: extract_module_def m Let_def split_beta)
  from example_list_probe example_list_text example_list_value m r show ?thesis
    by (intro conjI)
qed

section \<open>The example run\<close>

lemma example_sorted_paths:
  "map f_path (sorted_files (root_listing example_root)) =
     [[''__manifest__.py''], [''__init__.py''], [''models'', ''m.py''], [''a.txt''], [''b.txt'']]"
  by code_simp

lemma example_sorted_sizes:
  "map f_size (sorted_files (root_listing example_root)) = [6, 0, 1, 1, 3]"
  by code_simp

text \<open>The manifest of the example holds no literal, so the \<open>except\<close> branch sets the
  empty dict, which the extractor holds from the start.\<close>

lemma example_manifest: "extract_manifest example_env example_root init = Inr init"
  by code_simp

lemma example_json_dump: "json_dump example_env summary = None"
  by (simp add: example_env_def)

lemma example_run_completes:
  "\<exists>r s idx. extract_module example_env example_clock ''demo'' example_root = Inr r \<and>
     summary_json r = Inr s \<and> index_json r = Some idx"
proof -
  have "module_info (snd (extract_files example_env (t_content example_clock) ''demo''
      (root_listing example_root) init)) = PyDict []"
    by (simp add: module_info_extract_files init_def)
  from generate_summary_empty [OF this, of example_env "t_summary example_clock" "''demo''"]
  have "\<exists>s. generate_summary example_env (t_summary example_clock) ''demo''
      (snd (extract_files example_env (t_content example_clock) ''demo''
        (root_listing example_root) init)) = Inr s"
    by (simp add: Let_def example_json_dump)
  then show ?thesis
    by (auto simp add: extract_module_def example_manifest Let_def split_beta)
qed

text \<open>
  Claim C2. In every run the running total of the extractor is the sum of the sizes of
  the records it has accumulated. Whenever the summary is written, the index is written
  too, the summary's \<open>total_files\<close> is the number of records in the index, and its
  \<open>total_size_bytes\<close> is the sum of their sizes; the totals of the index file agree. A
  run gets as far as that unless \<open>exists()\<close> raises on the manifest's path.
\<close>

theorem statistics_consistent:
  "(\<forall>self1. extract_manifest E root init = Inr self1 \<longrightarrow>
      total_size (snd (extract_files E (t_content now) name (root_listing root) self1)) =
        sum_list (map r_size
          (file_index (snd (extract_files E (t_content now) name (root_listing root) self1))))) \<and>
   (\<forall>r s. extract_module E now name root = Inr r \<longrightarrow> summary_json r = Inr s \<longrightarrow>
      (\<exists>idx. index_json r = Some idx \<and>
         s_total_files s = length (i_files idx) \<and>
         s_total_size_bytes s = sum_list (map r_size (i_files idx)) \<and>
         i_total_files idx = length (i_files idx) \<and>
         i_total_size idx = sum_list (map r_size (i_files idx)))) \<and>
   (manifest_probe_of root \<noteq> ProbeDenied \<longrightarrow> (\<exists>r. extract_module E now name root = Inr r))"
proof (intro conjI allI impI)
  fix self1 assume m: "extract_manifest E root init = Inr self1"
  have sizes: "map r_size (map (index_entry E) (sorted_files (root_listing root))) =
      map f_size (sorted_files (root_listing root))"
    by (simp add: index_entry_def)
  show "total_size (snd (extract_files E (t_content now) name (root_listing root) self1)) =
     sum_list (map r_size
       (file_index (snd (extract_files E (t_content now) name (root_listing root) self1))))"
    using sizes extract_manifest_keeps_index [OF m]
    by (simp add: extract_files_eq init_def del: map_map)
next
  fix r s
  assume run: "extract_module E now name root = Inr r" and written: "summary_json r = Inr s"
  from summary_json_eq [OF run written] obtain idx where
    s: "s_total_files s = length (sorted_files (root_listing root))"
      "s_total_size_bytes s = sum_list (map f_size (sorted_files (root_listing root)))"
    and idx: "index_json r = Some idx"
    by blast
  have sizes: "map r_size (map (index_entry E) (sorted_files (root_listing root))) =
      map f_size (sorted_files (root_listing root))"
    by (simp add: index_entry_def)
  from index_json_eq [OF run idx] s sizes idx
  show "\<exists>idx. index_json r = Some idx \<and>
         s_total_files s = length (i_files idx) \<and>
         s_total_size_bytes s = sum_list (map r_size (i_files idx)) \<and>
         i_total_files idx = length (i_files idx) \<and>
         i_total_size idx = sum_list (map r_size (i_files idx))"
    by (simp del: map_map)
next
  assume "manifest_probe_of root \<noteq> ProbeDenied"
  then show "\<exists>r. extract_module E now name root = Inr r"
    by (rule extract_module_returns)
qed

theorem statistics_consistent_witness:
  "\<exists>r s idx. extract_module example_env example_clock ''demo'' example_root = Inr r \<and>
     summary_json r = Inr s \<and> index_json r = Some idx \<and>
     s_total_files s = length (i_files idx) \<and>
     s_total_size_bytes s = sum_list (map r_size (i_files idx)) \<and>
     s_total_files s = 5 \<and> s_total_size_bytes s = 11"
proof -
  from example_run_completes obtain r s where
    run: "extract_module example_env example_clock ''demo'' example_root = Inr r"
    and s: "summary_json r = Inr s"
    by blast
  have len: "length (sorted_files (root_listing example_root)) = 5"
    using arg_cong [OF example_sorted_sizes, of length] by simp
  from summary_json_eq [OF run s] have n: "s_total_files s = 5" and b: "s_total_size_bytes s = 11"
    using example_sorted_sizes len by simp_all
  from statistics_consistent [of example_env example_root example_clock "''demo''",
      THEN conjunct2, THEN conjunct1, rule_format, OF run s] run s n b
  show ?thesis
    by auto
qed

lemma section_names_file:
  "\<exists>rest. section_text E f = separator @ ''FILE: '' @ r_path (index_entry E f) @ nl @ rest"
proof -
  have "section_text E f = separator @ ''FILE: '' @ r_path (index_entry E f) @ nl @
     (''SIZE: '' @ str_nat (f_size f) @ '' bytes'' @ nl @
      ''TYPE: '' @ path_suffix (f_path f) @ nl @ file_body E f @ separator)"
    by (simp add: section_text_def index_entry_def)
  then show ?thesis by (rule exI)
qed

text \<open>
  Claim C1. The content bundle is its header followed by one section per file of the
  sorted file list, and the index holds one record per file of that same list, in the
  same order; each section names the path its record holds. The list is sorted by
  priority, ascending; it holds the files of the walk, each once; and files of equal
  priority keep the order of the walk. A run gets as far as that unless \<open>exists()\<close>
  raises on the manifest's path.
\<close>

theorem index_matches_bundle:
  "(\<forall>r. extract_module E now name root = Inr r \<longrightarrow>
      content_txt r =
        content_header (t_content now) name (length (sorted_files (root_listing root))) @
          concat (map (section_text E) (sorted_files (root_listing root))) \<and>
      (\<forall>idx. index_json r = Some idx \<longrightarrow>
         i_files idx = map (index_entry E) (sorted_files (root_listing root)))) \<and>
   (\<forall>self1. extract_manifest E root init = Inr self1 \<longrightarrow>
      file_index (snd (extract_files E (t_content now) name (root_listing root) self1)) =
        map (index_entry E) (sorted_files (root_listing root))) \<and>
   (manifest_probe_of root \<noteq> ProbeDenied \<longrightarrow> (\<exists>r. extract_module E now name root = Inr r)) \<and>
   (\<forall>f. \<exists>rest. section_text E f = separator @ ''FILE: '' @ r_path (index_entry E f) @ nl @ rest) \<and>
   sorted (map (\<lambda>f. get_file_priority (f_path f)) (sorted_files (root_listing root))) \<and>
   (\<forall>k. filter (\<lambda>f. get_file_priority (f_path f) = k) (sorted_files (root_listing root)) =
        filter (\<lambda>f. get_file_priority (f_path f) = k)
          (files_of (walk_directory [] (root_listing root)))) \<and>
   mset (sorted_files (root_listing root)) = mset (files_of (walk_directory [] (root_listing root)))"
proof (intro conjI allI impI)
  fix r assume "extract_module E now name root = Inr r"
  then show "content_txt r =
     content_header (t_content now) name (length (sorted_files (root_listing root))) @
       concat (map (section_text E) (sorted_files (root_listing root)))"
    by (rule content_txt_eq)
next
  fix self1 assume "extract_manifest E root init = Inr self1"
  from extract_manifest_keeps_index [OF this]
  show "file_index (snd (extract_files E (t_content now) name (root_listing root) self1)) =
     map (index_entry E) (sorted_files (root_listing root))"
    by (simp add: extract_files_eq init_def)
next
  fix r idx
  assume "extract_module E now name root = Inr r" and "index_json r = Some idx"
  from index_json_eq [OF this]
  show "i_files idx = map (index_entry E) (sorted_files (root_listing root))"
    by (rule conjunct1)
next
  assume "manifest_probe_of root \<noteq> ProbeDenied"
  then show "\<exists>r. extract_module E now name root = Inr r"
    by (rule extract_module_returns)
next
  fix f show "\<exists>rest. section_text E f = separator @ ''FILE: '' @ r_path (index_entry E f) @ nl @ rest"
    by (rule section_names_file)
next
  show "sorted (map (\<lambda>f. get_file_priority (f_path f)) (sorted_files (root_listing root)))"
    by (rule sorted_files_sorted)
next
  fix k show "filter (\<lambda>f. get_file_priority (f_path f) = k) (sorted_files (root_listing root)) =
        filter (\<lambda>f. get_file_priority (f_path f) = k)
          (files_of (walk_directory [] (root_listing root)))"
    by (rule sorted_files_stable)
next
  show "mset (sorted_files (root_listing root)) =
      mset (files_of (walk_directory [] (root_listing root)))"
    by (rule sorted_files_mset)
qed

theorem index_matches_bundle_witness:
  "\<exists>r idx. extract_module example_env example_clock ''demo'' example_root = Inr r \<and>
     index_json r = Some idx \<and>
     map r_path (i_files idx) = [''__manifest__.py'', ''__init__.py'', ''models/m.py'', ''a.txt'', ''b.txt'']"
proof -
  from example_run_completes obtain r idx where
    run: "extract_module example_env example_clock ''demo'' example_root = Inr r"
    and idx: "index_json r = Some idx"
    by (elim exE conjE)
  have "i_files idx = map (index_entry example_env) (sorted_files (root_listing example_root))"
    using index_matches_bundle [of example_env example_clock "''demo''" example_root,
        THEN conjunct1, rule_format, OF run, THEN conjunct2, rule_format, OF idx] .
  then have "map r_path (i_files idx) =
      map path_str (map f_path (sorted_files (root_listing example_root)))"
    by (simp add: index_entry_def)
  also have "\<dots> = [''__manifest__.py'', ''__init__.py'', ''models/m.py'', ''a.txt'', ''b.txt'']"
    unfolding example_sorted_paths by (simp add: path_str_def)
  finally have "map r_path (i_files idx) =
      [''__manifest__.py'', ''__init__.py'', ''models/m.py'', ''a.txt'', ''b.txt'']" .
  with run idx show ?thesis by (intro exI conjI)
qed
section \<open>The walker leaves excluded subtrees out\<close>

lemma not_excluded_name: "\<not> should_exclude node \<Longrightarrow> \<not> name_excluded (node_name node)"
  by (simp add: should_exclude_def split: if_splits)

lemma walk_directory_paths:
  "it \<in> set (walk_directory p l) \<Longrightarrow>
     \<exists>q. item_path it = p @ q \<and> (\<forall>c \<in> set q. \<not> name_excluded c)"
proof (induction p l arbitrary: it rule: walk_directory.induct)
  case (1 p)
  then show ?case by simp
next
  case (2 p entries)
  from "2.prems" obtain node where
    node: "node \<in> set entries" "\<not> should_exclude node"
    and it: "it \<in> set (case node of
        DirNode name listing \<Rightarrow> DirItem name (p @ [name]) # walk_directory (p @ [name]) listing
      | FileNode name sz data \<Rightarrow>
          [FileItem \<lparr>f_name = name, f_path = p @ [name], f_size = sz, f_data = data\<rparr>])"
    by (auto split: if_splits)
  have ok: "\<not> name_excluded (node_name node)"
    using node(2) by (rule not_excluded_name)
  show ?case
  proof (cases node)
    case (FileNode name sz data)
    with it ok have "item_path it = p @ [name] \<and> (\<forall>c \<in> set [name]. \<not> name_excluded c)"
      by simp
    then show ?thesis by blast
  next
    case (DirNode name listing)
    with it have "it = DirItem name (p @ [name]) \<or> it \<in> set (walk_directory (p @ [name]) listing)"
      by simp
    then show ?thesis
    proof
      assume "it = DirItem name (p @ [name])"
      with DirNode ok have "item_path it = p @ [name] \<and> (\<forall>c \<in> set [name]. \<not> name_excluded c)"
        by simp
      then show ?thesis by blast
    next
      assume rec: "it \<in> set (walk_directory (p @ [name]) listing)"
      have "node \<in> set (sort_key node_name entries)"
        using node(1) by simp
      from "2.IH" [OF this node(2) DirNode rec] obtain q where
        q: "item_path it = (p @ [name]) @ q" "\<forall>c \<in> set q. \<not> name_excluded c"
        by blast
      with DirNode ok have "item_path it = p @ (name # q) \<and> (\<forall>c \<in> set (name # q). \<not> name_excluded c)"
        by simp
      then show ?thesis by blast
    qed
  qed
qed

lemma files_of_items: "f \<in> set (files_of items) \<Longrightarrow> FileItem f \<in> set items"
  by (induction items rule: files_of.induct) auto

lemma sorted_files_paths:
  assumes "f \<in> set (sorted_files listing)" and "c \<in> set (f_path f)"
  shows "\<not> name_excluded c"
proof -
  from assms(1) have "FileItem f \<in> set (walk_directory [] listing)"
    by (simp add: sorted_files_def files_of_items)
  from walk_directory_paths [OF this] assms(2) show ?thesis
    by simp
qed


text \<open>
  Claim C6. Let \<open>d\<close> be a name that fits a pattern of the exclusion set. Then no item
  the walker returns has \<open>d\<close> among the parts of its path: an entry named \<open>d\<close> is left
  out, and so is everything below a directory named \<open>d\<close>, whatever its extension. The
  same holds for the sorted file list, from which alone the content bundle and the
  index of a run are built.
\<close>

theorem excluded_subtrees_omitted:
  assumes "name_excluded d"
  shows "(\<forall>it \<in> set (walk_directory [] listing). d \<notin> set (item_path it)) \<and>
    (\<forall>f \<in> set (sorted_files listing). d \<notin> set (f_path f)) \<and>
    (\<forall>r. extract_module E now name root = Inr r \<longrightarrow>
       content_txt r =
         content_header (t_content now) name (length (sorted_files (root_listing root))) @
           concat (map (section_text E) (sorted_files (root_listing root))) \<and>
       (\<forall>idx. index_json r = Some idx \<longrightarrow>
          i_files idx = map (index_entry E) (sorted_files (root_listing root))))"
proof (intro conjI ballI allI impI)
  fix it assume "it \<in> set (walk_directory [] listing)"
  from walk_directory_paths [OF this] assms show "d \<notin> set (item_path it)"
    by auto
next
  fix f assume "f \<in> set (sorted_files listing)"
  with assms show "d \<notin> set (f_path f)"
    using sorted_files_paths by blast
next
  fix r assume "extract_module E now name root = Inr r"
  then show "content_txt r =
      content_header (t_content now) name (length (sorted_files (root_listing root))) @
        concat (map (section_text E) (sorted_files (root_listing root)))"
    by (rule content_txt_eq)
next
  fix r idx
  assume "extract_module E now name root = Inr r" and "index_json r = Some idx"
  from index_json_eq [OF this]
  show "i_files idx = map (index_entry E) (sorted_files (root_listing root))"
    by (rule conjunct1)
qed

lemma git_excluded: "name_excluded ''.git''"
  by (simp add: name_excluded_def EXCLUDE_PATTERNS_def pattern_fits_def)

lemma example_has_git:
  "find (\<lambda>n. node_name n = ''.git'') (the (root_listing example_root)) =
     Some (DirNode ''.git'' (Some [FileNode ''hook.py'' 2 (Inr [120, 120])]))"
  by code_simp

theorem excluded_subtrees_omitted_witness:
  "name_excluded ''.git'' \<and>
   find (\<lambda>n. node_name n = ''.git'') (the (root_listing example_root)) =
     Some (DirNode ''.git'' (Some [FileNode ''hook.py'' 2 (Inr [120, 120])])) \<and>
   \<not> (\<exists>it \<in> set (walk_directory [] (root_listing example_root)). ''.git'' \<in> set (item_path it)) \<and>
   \<not> (\<exists>f \<in> set (sorted_files (root_listing example_root)). ''.git'' \<in> set (f_path f)) \<and>
   (\<exists>r idx. extract_module example_env example_clock ''demo'' example_root = Inr r \<and>
      index_json r = Some idx \<and>
      i_files idx = map (index_entry example_env) (sorted_files (root_listing example_root)))"
proof -
  note t = excluded_subtrees_omitted [OF git_excluded,
      where listing = "root_listing example_root" and E = example_env and now = example_clock
        and name = "''demo''" and root = example_root]
  from example_run_completes obtain r idx where
    run: "extract_module example_env example_clock ''demo'' example_root = Inr r"
    and idx: "index_json r = Some idx"
    by (elim exE conjE)
  have a: "\<not> (\<exists>it \<in> set (walk_directory [] (root_listing example_root)).
      ''.git'' \<in> set (item_path it))"
    using t [THEN conjunct1] by blast
  have b: "\<not> (\<exists>f \<in> set (sorted_files (root_listing example_root)). ''.git'' \<in> set (f_path f))"
    using t [THEN conjunct2, THEN conjunct1] by blast
  have c: "i_files idx = map (index_entry example_env) (sorted_files (root_listing example_root))"
    using t [THEN conjunct2, THEN conjunct2, rule_format, OF run, THEN conjunct2, rule_format, OF idx] .
  from run idx c have "\<exists>r idx. extract_module example_env example_clock ''demo'' example_root = Inr r \<and>
      index_json r = Some idx \<and>
      i_files idx = map (index_entry example_env) (sorted_files (root_listing example_root))"
    by (intro exI conjI)
  with git_excluded example_has_git a b show ?thesis
    by (intro conjI)
qed
section \<open>A second run differs in its timestamps only\<close>

lemma node_name_canonical [simp]: "node_name (canonical n) = node_name n"
  by (induction n rule: canonical.induct) simp_all

lemma is_file_canonical [simp]: "is_file (canonical n) = is_file n"
  by (induction n rule: canonical.induct) simp_all

lemma should_exclude_canonical [simp]: "should_exclude (canonical n) = should_exclude n"
  by (simp add: should_exclude_def)

lemma insort_key_map_same:
  assumes "\<forall>x. f (g x) = f x"
  shows "insort_key f (g x) (map g xs) = map g (insort_key f x xs)"
  by (induction xs) (simp_all add: assms)

lemma sort_key_map_same:
  assumes "\<forall>x. f (g x) = f x"
  shows "sort_key f (map g xs) = map g (sort_key f xs)"
  by (induction xs) (simp_all add: insort_key_map_same [OF assms])

lemma sort_key_twice: "sort_key f (sort_key f xs) = sort_key f xs"
  by (simp add: sort_key_id_if_sorted)

lemma canonical_dir:
  "canonical (DirNode name listing) = DirNode name (canonical_listing listing)"
  by (cases listing) (simp_all add: canonical_listing_def)

lemma walk_directory_canonical:
  "walk_directory p (canonical_listing l) = walk_directory p l"
proof (induction p l rule: walk_directory.induct)
  case (1 p)
  then show ?case by (simp add: canonical_listing_def)
next
  case (2 p entries)
  let ?F = "\<lambda>node.
        if should_exclude node then []
        else (case node of
                DirNode name listing \<Rightarrow>
                  DirItem name (p @ [name]) # walk_directory (p @ [name]) listing
              | FileNode name sz data \<Rightarrow>
                  [FileItem \<lparr>f_name = name, f_path = p @ [name], f_size = sz, f_data = data\<rparr>])"
  have step: "?F (canonical node) = ?F node" if "node \<in> set (sort_key node_name entries)" for node
  proof (cases "should_exclude node")
    case True
    then show ?thesis by simp
  next
    case False
    show ?thesis
    proof (cases node)
      case (FileNode name sz data)
      then show ?thesis by simp
    next
      case (DirNode name listing)
      from "2.IH" [OF that False DirNode]
      have "walk_directory (p @ [name]) (canonical_listing listing) = walk_directory (p @ [name]) listing" .
      moreover have c: "canonical node = DirNode name (canonical_listing listing)"
        using DirNode by (simp add: canonical_dir del: canonical.simps)
      moreover have "\<not> should_exclude (DirNode name (canonical_listing listing))"
        using False should_exclude_canonical [of node] unfolding c by simp
      ultimately show ?thesis
        using DirNode False by simp
    qed
  qed
  have "walk_directory p (canonical_listing (Some entries)) =
      concat (map ?F (sort_key node_name (sort_key node_name (map canonical entries))))"
    by (simp add: canonical_listing_def)
  also have "\<dots> = concat (map ?F (map canonical (sort_key node_name entries)))"
    by (simp add: sort_key_twice sort_key_map_same [of node_name canonical])
  also have "\<dots> = concat (map (\<lambda>node. ?F (canonical node)) (sort_key node_name entries))"
    by (simp only: map_map comp_def)
  also have "\<dots> = concat (map ?F (sort_key node_name entries))"
    using step by (auto intro!: arg_cong [where f = concat] map_cong)
  also have "\<dots> = walk_directory p (Some entries)"
    by simp
  finally show ?case .
qed


lemma walk_directory_same_tree:
  assumes "canonical_listing l1 = canonical_listing l2"
  shows "walk_directory p l1 = walk_directory p l2"
  using walk_directory_canonical [of p l1] walk_directory_canonical [of p l2] assms
  by simp

lemma root_listing_canonical:
  "root_listing (canonical_root root) = canonical_listing (root_listing root)"
  by (cases root) (simp_all add: canonical_listing_def)

lemma listed_not_denied: "manifest_probe_of (Listed entries) \<noteq> ProbeDenied"
  by (simp split: option.splits fsnode.splits)

lemma denied_root: "manifest_probe_of root = ProbeDenied \<longleftrightarrow> root = Unlisted ProbeDenied"
  using listed_not_denied by (cases root) auto

lemma denied_canonical:
  "manifest_probe_of (canonical_root root) = ProbeDenied \<longleftrightarrow> manifest_probe_of root = ProbeDenied"
  unfolding denied_root by (cases root) simp_all

text \<open>
  Claim C9. Take two runs on one module root: the tree is the same, though the operating
  system may list its directories in another order, and the clock readings differ. Then
  the two structure files are the same text around their timestamps, and so are the two
  content files. A run that ends in \<open>_extract_manifest\<close>, before any file is written, does
  so both times.
\<close>

theorem rerun_differs_in_timestamps_only:
  assumes "canonical_root root1 = canonical_root root2"
  shows "(\<forall>r1. extract_module E now1 name root1 = Inr r1 \<longrightarrow>
       (\<exists>r2. extract_module E now2 name root2 = Inr r2 \<and>
          (\<exists>pre post.
             structure_txt r1 = pre @ t_structure now1 @ post \<and>
             structure_txt r2 = pre @ t_structure now2 @ post) \<and>
          (\<exists>pre post.
             content_txt r1 = pre @ t_content now1 @ post \<and>
             content_txt r2 = pre @ t_content now2 @ post))) \<and>
     (\<forall>e. extract_module E now1 name root1 = Inl e \<longrightarrow>
          extract_module E now2 name root2 = Inl e) \<and>
     (manifest_probe_of root1 \<noteq> ProbeDenied \<longrightarrow>
        (\<exists>r1. extract_module E now1 name root1 = Inr r1))"
proof (intro conjI allI impI)
  have same: "canonical_listing (root_listing root1) = canonical_listing (root_listing root2)"
    using arg_cong [OF assms, of root_listing] by (simp only: root_listing_canonical)
  have denied: "manifest_probe_of root1 = ProbeDenied \<longleftrightarrow> manifest_probe_of root2 = ProbeDenied"
    using denied_canonical [of root1] denied_canonical [of root2] assms by simp
  {
    fix r1 assume run1: "extract_module E now1 name root1 = Inr r1"
    have "manifest_probe_of root1 \<noteq> ProbeDenied"
      using run1 extract_module_raises [of E now1 name root1 PermissionError] by auto
    with denied have "manifest_probe_of root2 \<noteq> ProbeDenied"
      by simp
    from extract_module_returns [OF this] obtain r2 where
      run2: "extract_module E now2 name root2 = Inr r2"
      by blast
    have w: "walk_directory [] (root_listing root1) = walk_directory [] (root_listing root2)"
      using same by (rule walk_directory_same_tree)
    have s1: "structure_txt r1 =
        (''# '' @ name @ structure_title @ nl @ generated_at) @ t_structure now1 @
        (nl @ nl @ concat (map (structure_line E) (walk_directory [] (root_listing root1))))"
      using structure_txt_eq [OF run1] by (simp add: generate_tree_structure_def)
    have s2: "structure_txt r2 =
        (''# '' @ name @ structure_title @ nl @ generated_at) @ t_structure now2 @
        (nl @ nl @ concat (map (structure_line E) (walk_directory [] (root_listing root1))))"
      using structure_txt_eq [OF run2] w by (simp add: generate_tree_structure_def)
    from s1 s2 have s: "\<exists>pre post.
        structure_txt r1 = pre @ t_structure now1 @ post \<and>
        structure_txt r2 = pre @ t_structure now2 @ post"
      by blast
    have f: "sorted_files (root_listing root1) = sorted_files (root_listing root2)"
      using w by (simp add: sorted_files_def)
    have c1: "content_txt r1 =
        (''# '' @ name @ content_title @ nl @ generated_at) @ t_content now1 @
        (nl @ file_count_label @ str_nat (length (sorted_files (root_listing root1))) @ nl @ nl @
         concat (map (section_text E) (sorted_files (root_listing root1))))"
      using content_txt_eq [OF run1] by (simp add: content_header_def)
    have c2: "content_txt r2 =
        (''# '' @ name @ content_title @ nl @ generated_at) @ t_content now2 @
        (nl @ file_count_label @ str_nat (length (sorted_files (root_listing root1))) @ nl @ nl @
         concat (map (section_text E) (sorted_files (root_listing root1))))"
      using content_txt_eq [OF run2] f by (simp add: content_header_def)
    from c1 c2 have c: "\<exists>pre post.
        content_txt r1 = pre @ t_content now1 @ post \<and>
        content_txt r2 = pre @ t_content now2 @ post"
      by blast
    from run2 s c show "\<exists>r2. extract_module E now2 name root2 = Inr r2 \<and>
          (\<exists>pre post.
             structure_txt r1 = pre @ t_structure now1 @ post \<and>
             structure_txt r2 = pre @ t_structure now2 @ post) \<and>
          (\<exists>pre post.
             content_txt r1 = pre @ t_content now1 @ post \<and>
             content_txt r2 = pre @ t_content now2 @ post)"
      by blast
  }
  {
    fix e assume "extract_module E now1 name root1 = Inl e"
    with denied show "extract_module E now2 name root2 = Inl e"
      by (simp add: extract_module_raises)
  }
  assume "manifest_probe_of root1 \<noteq> ProbeDenied"
  then show "\<exists>r1. extract_module E now1 name root1 = Inr r1"
    by (rule extract_module_returns)
qed

lemma example_same_tree: "canonical_root example_root = canonical_root example_relisted"
  by code_simp

lemma example_differs: "example_root \<noteq> example_relisted"
  by code_simp

theorem rerun_differs_in_timestamps_only_witness:
  "canonical_root example_root = canonical_root example_relisted \<and>
   example_root \<noteq> example_relisted \<and>
   (\<exists>r1 r2.
      extract_module example_env example_clock ''demo'' example_root = Inr r1 \<and>
      extract_module example_env example_clock_later ''demo'' example_relisted = Inr r2 \<and>
      (\<exists>pre post.
         structure_txt r1 = pre @ ''2024-01-01 10:00:00'' @ post \<and>
         structure_txt r2 = pre @ ''2024-02-02 12:00:00'' @ post) \<and>
      (\<exists>pre post.
         content_txt r1 = pre @ ''2024-01-01 10:00:01'' @ post \<and>
         content_txt r2 = pre @ ''2024-02-02 12:00:01'' @ post))"
proof -
  have a: "t_structure example_clock = ''2024-01-01 10:00:00''"
    "t_content example_clock = ''2024-01-01 10:00:01''"
    by (simp_all add: example_clock_def)
  have b: "t_structure example_clock_later = ''2024-02-02 12:00:00''"
    "t_content example_clock_later = ''2024-02-02 12:00:01''"
    by (simp_all add: example_clock_later_def)
  from example_run_completes obtain r1 where
    run1: "extract_module example_env example_clock ''demo'' example_root = Inr r1"
    by (elim exE conjE)
  have "\<exists>r2. extract_module example_env example_clock_later ''demo'' example_relisted = Inr r2 \<and>
      (\<exists>pre post.
         structure_txt r1 = pre @ ''2024-01-01 10:00:00'' @ post \<and>
         structure_txt r2 = pre @ ''2024-02-02 12:00:00'' @ post) \<and>
      (\<exists>pre post.
         content_txt r1 = pre @ ''2024-01-01 10:00:01'' @ post \<and>
         content_txt r2 = pre @ ''2024-02-02 12:00:01'' @ post)"
    using rerun_differs_in_timestamps_only [OF example_same_tree,
      of example_env example_clock "''demo''" example_clock_later,
      THEN conjunct1, rule_format, OF run1]
    unfolding a b .
  then obtain r2 where
    "extract_module example_env example_clock_later ''demo'' example_relisted = Inr r2 \<and>
      (\<exists>pre post.
         structure_txt r1 = pre @ ''2024-01-01 10:00:00'' @ post \<and>
         structure_txt r2 = pre @ ''2024-02-02 12:00:00'' @ post) \<and>
      (\<exists>pre post.
         content_txt r1 = pre @ ''2024-01-01 10:00:01'' @ post \<and>
         content_txt r2 = pre @ ''2024-02-02 12:00:01'' @ post)"
    by (rule exE)
  with run1 have "extract_module example_env example_clock ''demo'' example_root = Inr r1 \<and>
      extract_module example_env example_clock_later ''demo'' example_relisted = Inr r2 \<and>
      (\<exists>pre post.
         structure_txt r1 = pre @ ''2024-01-01 10:00:00'' @ post \<and>
         structure_txt r2 = pre @ ''2024-02-02 12:00:00'' @ post) \<and>
      (\<exists>pre post.
         content_txt r1 = pre @ ''2024-01-01 10:00:01'' @ post \<and>
         content_txt r2 = pre @ ''2024-02-02 12:00:01'' @ post)"
    by (rule conjI)
  then have "\<exists>r1 r2.
      extract_module example_env example_clock ''demo'' example_root = Inr r1 \<and>
      extract_module example_env example_clock_later ''demo'' example_relisted = Inr r2 \<and>
      (\<exists>pre post.
         structure_txt r1 = pre @ ''2024-01-01 10:00:00'' @ post \<and>
         structure_txt r2 = pre @ ''2024-02-02 12:00:00'' @ post) \<and>
      (\<exists>pre post.
         content_txt r1 = pre @ ''2024-01-01 10:00:01'' @ post \<and>
         content_txt r2 = pre @ ''2024-02-02 12:00:01'' @ post)"
    by (intro exI [of _ r1] exI [of _ r2])
  with example_same_tree example_differs show ?thesis
    by (intro conjI)
qed
section \<open>Rendering a Python file\<close>





















section \<open>Rendering an XML file\<close>

lemma xml_info_eq:
  assumes "tag root = ''odoo'' \<or> tag root = ''openerp''"
  shows "xml_info root =
     ''PARSED_INFO:'' @ nl @
     (if findall_descendants root ''record'' = [] then []
      else ''  Records: '' @ str_nat (length (findall_descendants root ''record'')) @ nl @
        ''  Record IDs: '' @
        join '', '' (map (\<lambda>r. element_get r ''id'' ''no-id'')
          (take 5 (findall_descendants root ''record''))) @
        (if 5 < length (findall_descendants root ''record'') then ''...'' else []) @ nl) @
     (if findall_descendants root ''template'' = [] then []
      else ''  Templates: '' @ str_nat (length (findall_descendants root ''template'')) @ nl)"
  using assms by (simp add: xml_info_def Let_def)

text \<open>
  Claim C4, as amended. For an XML file that reads as text and parses to a root tagged
  \<open>odoo\<close> or \<open>openerp\<close>, with at least one \<open>record\<close> or \<open>template\<close> element below the
  root: the block \<open>PARSED_INFO\<close> is written before the content. It holds the number of
  records and the \<open>id\<close> (or \<open>no-id\<close>) of the first five, followed by the ellipsis exactly
  when there are more than five, exactly when a record was found; and the number of
  templates exactly when a template was found.
\<close>

theorem xml_parsed_info_block:
  assumes "read_text E data = Inr content"
    and "et_fromstring E content = Some root"
    and "tag root = ''odoo'' \<or> tag root = ''openerp''"
    and "findall_descendants root ''record'' \<noteq> [] \<or> findall_descendants root ''template'' \<noteq> []"
  shows "write_xml_file E data =
     ''PARSED_INFO:'' @ nl @
     (if findall_descendants root ''record'' = [] then []
      else ''  Records: '' @ str_nat (length (findall_descendants root ''record'')) @ nl @
        ''  Record IDs: '' @
        join '', '' (map (\<lambda>r. element_get r ''id'' ''no-id'')
          (take 5 (findall_descendants root ''record''))) @
        (if 5 < length (findall_descendants root ''record'') then ''...'' else []) @ nl) @
     (if findall_descendants root ''template'' = [] then []
      else ''  Templates: '' @ str_nat (length (findall_descendants root ''template'')) @ nl) @
     ''CONTENT:'' @ nl @ content"
proof -
  have "write_xml_file E data = xml_info root @ ''CONTENT:'' @ nl @ content"
    using assms(1,2) by (simp add: write_xml_file_def xml_parsed_info_def)
  then show ?thesis
    unfolding xml_info_eq [OF assms(3)] by simp
qed

lemma example_records_found:
  "findall_descendants example_records ''record'' =
     [Element ''record'' [(''id'', ''a''), (''model'', ''res.partner'')] [],
      Element ''record'' [(''id'', ''b'')] [Element ''field'' [(''name'', ''x'')] []],
      Element ''record'' [(''id'', ''c'')] []]"
  by code_simp

lemma example_records_templates: "findall_descendants example_records ''template'' = []"
  by code_simp

theorem xml_parsed_info_block_witness:
  "read_text example_xml_env (Inr [60, 97, 47, 62]) = Inr ''<a/>'' \<and>
   et_fromstring example_xml_env ''<a/>'' = Some example_records \<and>
   tag example_records = ''odoo'' \<and>
   write_xml_file example_xml_env (Inr [60, 97, 47, 62]) =
     ''PARSED_INFO:'' @ nl @ ''  Records: 3'' @ nl @ ''  Record IDs: a, b, c'' @ nl @
     ''CONTENT:'' @ nl @ ''<a/>''"
proof -
  have r: "read_text example_xml_env (Inr [60, 97, 47, 62]) = Inr ''<a/>''"
    by code_simp
  have p: "et_fromstring example_xml_env ''<a/>'' = Some example_records"
    by (simp add: example_xml_env_def)
  have g: "tag example_records = ''odoo''"
    by (simp add: example_records_def)
  then have t: "tag example_records = ''odoo'' \<or> tag example_records = ''openerp''"
    by (rule disjI1)
  have n: "findall_descendants example_records ''record'' \<noteq> [] \<or>
      findall_descendants example_records ''template'' \<noteq> []"
    by (simp add: example_records_found)
  have rendered: "''PARSED_INFO:'' @ nl @
     (if findall_descendants example_records ''record'' = [] then []
      else ''  Records: '' @ str_nat (length (findall_descendants example_records ''record'')) @ nl @
        ''  Record IDs: '' @
        join '', '' (map (\<lambda>r. element_get r ''id'' ''no-id'')
          (take 5 (findall_descendants example_records ''record''))) @
        (if 5 < length (findall_descendants example_records ''record'') then ''...'' else []) @ nl) @
     (if findall_descendants example_records ''template'' = [] then []
      else ''  Templates: '' @ str_nat (length (findall_descendants example_records ''template'')) @ nl) @
     ''CONTENT:'' @ nl @ ''<a/>'' =
     ''PARSED_INFO:'' @ nl @ ''  Records: 3'' @ nl @ ''  Record IDs: a, b, c'' @ nl @
     ''CONTENT:'' @ nl @ ''<a/>''"
    by code_simp
  from xml_parsed_info_block [OF r p t n]
  have "write_xml_file example_xml_env (Inr [60, 97, 47, 62]) =
     ''PARSED_INFO:'' @ nl @ ''  Records: 3'' @ nl @ ''  Record IDs: a, b, c'' @ nl @
     ''CONTENT:'' @ nl @ ''<a/>''"
    unfolding rendered .
  with r p g show ?thesis
    by (intro conjI)
qed

text \<open>
  Against claim C4 as stated (a block if and only if a record was found): a root tagged
  \<open>odoo\<close> with one template and no record gets the block, with the template count.
\<close>

theorem parsed_info_without_records:
  "read_text example_view_env (Inr [60, 97, 47, 62]) = Inr ''<a/>'' \<and>
   et_fromstring example_view_env ''<a/>'' = Some example_templates \<and>
   tag example_templates = ''odoo'' \<and>
   findall_descendants example_templates ''record'' = [] \<and>
   write_xml_file example_view_env (Inr [60, 97, 47, 62]) =
     ''PARSED_INFO:'' @ nl @ ''  Templates: 1'' @ nl @ ''CONTENT:'' @ nl @ ''<a/>''"
proof (intro conjI)
  show "read_text example_view_env (Inr [60, 97, 47, 62]) = Inr ''<a/>''"
    by code_simp
  show "et_fromstring example_view_env ''<a/>'' = Some example_templates"
    by (simp add: example_view_env_def)
  show "tag example_templates = ''odoo''"
    by (simp add: example_templates_def)
  show "findall_descendants example_templates ''record'' = []"
    by code_simp
  show "write_xml_file example_view_env (Inr [60, 97, 47, 62]) =
     ''PARSED_INFO:'' @ nl @ ''  Templates: 1'' @ nl @ ''CONTENT:'' @ nl @ ''<a/>''"
    by code_simp
qed

section \<open>Rendering a file that is not text\<close>

lemma length_hexdigest: "length (hexdigest w) = 32"
  by (simp add: hexdigest_def)

lemma hex_digit_char: "d < 16 \<Longrightarrow> hex_digit d \<in> set ''0123456789abcdef''"
  unfolding hex_digit_def by (rule nth_mem) simp

lemma hexdigest_chars: "set (hexdigest w) \<subseteq> set ''0123456789abcdef''"
proof
  fix c assume "c \<in> set (hexdigest w)"
  then obtain i where "c = hex_digit (unat (drop_bit (4 * i) w) mod 16)"
    by (auto simp: hexdigest_def)
  then show "c \<in> set ''0123456789abcdef''"
    using hex_digit_char [of "unat (drop_bit (4 * i) w) mod 16"] by simp
qed

lemma checksum_of_bytes:
  "calculate_checksum E (Inr bs) = take 8 (hexdigest (md5 E bs)) \<and>
   length (calculate_checksum E (Inr bs)) = 8 \<and>
   set (calculate_checksum E (Inr bs)) \<subseteq> set ''0123456789abcdef''"
proof -
  have "set (take 8 (hexdigest (md5 E bs))) \<subseteq> set (hexdigest (md5 E bs))"
    by (rule set_take_subset)
  with hexdigest_chars [of "md5 E bs"] show ?thesis
    by (simp add: calculate_checksum_def length_hexdigest)
qed

text \<open>
  Claim C8, as amended. Take a file whose bytes can be read and do not decode as UTF-8.
  If its extension is neither \<open>.py\<close> nor \<open>.xml\<close>, its body in the bundle is exactly the
  line \<open>CONTENT: [Binary file - skipped]\<close>. If its extension is \<open>.py\<close> or \<open>.xml\<close>, its
  body is the \<open>ERROR\<close> line with the decoder's message. Either way none of its bytes are
  written, and it gets a record in the index whose checksum is the first eight
  hexadecimal digits of the digest of its bytes.
\<close>

theorem undecodable_file_rendering:
  assumes "f_data f = Inr bs" and "utf8_decode E bs = Inl e"
  shows "(path_suffix (f_path f) \<noteq> ''.py'' \<and> path_suffix (f_path f) \<noteq> ''.xml'' \<longrightarrow>
       file_body E f = ''CONTENT: [Binary file - skipped]'' @ nl) \<and>
    (path_suffix (f_path f) = ''.py'' \<or> path_suffix (f_path f) = ''.xml'' \<longrightarrow>
       file_body E f = error_prefix @ e @ nl) \<and>
    file_index (snd (write_file_content E f (out, self))) = file_index self @ [index_entry E f] \<and>
    r_checksum (index_entry E f) = take 8 (hexdigest (md5 E bs)) \<and>
    length (r_checksum (index_entry E f)) = 8 \<and>
    set (r_checksum (index_entry E f)) \<subseteq> set ''0123456789abcdef''"
proof -
  have r: "read_text E (f_data f) = Inl e"
    using assms by (simp add: read_text_def)
  have a: "path_suffix (f_path f) \<noteq> ''.py'' \<and> path_suffix (f_path f) \<noteq> ''.xml'' \<longrightarrow>
       file_body E f = ''CONTENT: [Binary file - skipped]'' @ nl"
    using r by (simp add: file_body_def write_generic_file_def)
  have b: "path_suffix (f_path f) = ''.py'' \<or> path_suffix (f_path f) = ''.xml'' \<longrightarrow>
       file_body E f = error_prefix @ e @ nl"
    using r by (auto simp: file_body_def write_python_file_def write_xml_file_def)
  have c: "file_index (snd (write_file_content E f (out, self))) = file_index self @ [index_entry E f]"
    by (simp add: write_file_content_def)
  have d: "r_checksum (index_entry E f) = calculate_checksum E (Inr bs)"
    using assms(1) by (simp add: index_entry_def)
  have k: "r_checksum (index_entry E f) = take 8 (hexdigest (md5 E bs)) \<and>
      length (r_checksum (index_entry E f)) = 8 \<and>
      set (r_checksum (index_entry E f)) \<subseteq> set ''0123456789abcdef''"
    unfolding d by (rule checksum_of_bytes)
  show ?thesis
    by (rule conjI [OF a conjI [OF b conjI [OF c k]]])
qed

theorem undecodable_file_rendering_witness:
  "f_data example_binary_txt = Inr [255] \<and>
   utf8_decode example_env [255] = Inl ''invalid start byte'' \<and>
   path_suffix (f_path example_binary_txt) = ''.txt'' \<and>
   file_body example_env example_binary_txt = ''CONTENT: [Binary file - skipped]'' @ nl \<and>
   length (r_checksum (index_entry example_env example_binary_txt)) = 8"
proof -
  have d: "f_data example_binary_txt = Inr [255]"
    by (simp add: example_binary_txt_def)
  have u: "utf8_decode example_env [255] = Inl ''invalid start byte''"
    by (simp add: example_env_def)
  have s: "path_suffix (f_path example_binary_txt) = ''.txt''"
    by code_simp
  have ne: "path_suffix (f_path example_binary_txt) \<noteq> ''.py'' \<and>
      path_suffix (f_path example_binary_txt) \<noteq> ''.xml''"
    unfolding s by simp
  note th = undecodable_file_rendering [OF d u, of "[]" init]
  from th [THEN conjunct1] ne have body: "file_body example_env example_binary_txt =
      ''CONTENT: [Binary file - skipped]'' @ nl"
    by (rule mp)
  have len: "length (r_checksum (index_entry example_env example_binary_txt)) = 8"
    by (rule th [THEN conjunct2, THEN conjunct2, THEN conjunct2, THEN conjunct2, THEN conjunct1])
  from d u s body len show ?thesis
    by (intro conjI)
qed

text \<open>
  Against claim C8 as stated (the marker for every allowed extension): \<open>.py\<close> is an
  allowed extension, and a Python file that does not decode gets the \<open>ERROR\<close> line, not
  the marker.
\<close>

theorem undecodable_python_file:
  "path_suffix (f_path example_binary_py) \<in> INCLUDE_EXTENSIONS \<and>
   f_data example_binary_py = Inr [255] \<and>
   utf8_decode example_env [255] = Inl ''invalid start byte'' \<and>
   file_body example_env example_binary_py = error_prefix @ ''invalid start byte'' @ nl \<and>
   file_body example_env example_binary_py \<noteq> ''CONTENT: [Binary file - skipped]'' @ nl"
proof (intro conjI)
  show "path_suffix (f_path example_binary_py) \<in> INCLUDE_EXTENSIONS"
    by code_simp
  show "f_data example_binary_py = Inr [255]"
    by (simp add: example_binary_py_def)
  show "utf8_decode example_env [255] = Inl ''invalid start byte''"
    by (simp add: example_env_def)
  show "file_body example_env example_binary_py = error_prefix @ ''invalid start byte'' @ nl"
    by code_simp
  show "file_body example_env example_binary_py \<noteq> ''CONTENT: [Binary file - skipped]'' @ nl"
    by code_simp
qed

end
